theory Spec2Isabelle
  imports Complex_Main "HOL-Library.Sublist"
begin

section \<open>The SQS command worker\<close>

text \<open>
  The worker polls an SQS queue, parses each message body into a command descriptor
  (\<open>parseMessage\<close>), checks the command against a fixed allowlist (\<open>isCommandAllowed\<close>),
  runs it with \<open>Bun.spawn\<close> (\<open>executeCommand\<close>), publishes the result on a response queue
  (\<open>sendResponse\<close>) and deletes the message (\<open>processMessage\<close>).

  The embedding follows the worker with the response queue (the file with
  \<open>getResponseQueueName\<close> and \<open>sendResponse\<close>). The file \<open>src/index.ts\<close> is the same
  worker without responses; its allowlist check, its parser and its executor are
  embedded next to the other ones, under the names \<open>isCommandAllowed_index\<close>,
  \<open>parseMessage_index\<close> and \<open>executeCommand_index\<close>.

  What the JavaScript runtime and the AWS SDK do is not code of the worker. It enters the
  model as data: the result of \<open>JSON.parse\<close>, of \<open>Bun.spawn\<close> and of the \<open>GetQueueUrl\<close>
  call are fields of the record \<open>world\<close>, and every call the worker makes on the SQS client
  or on \<open>Bun.spawn\<close> is an \<open>event\<close> of the trace a function returns. Every awaited call
  is taken to settle (with a value or with an exception). Console output is not
  modelled, but for the one log line that can throw.
\<close>

subsection \<open>JavaScript strings\<close>

text \<open>
  A string is a list of code units. A \<open>char\<close> stands for one code unit below \<open>0x100\<close>;
  the white space of \<open>String.prototype.trim\<close> and of the class \<open>\s\<close> in that range is
  TAB, LF, VT, FF, CR, SP and NBSP. (The white space code units from \<open>0x100\<close> up have no
  \<open>char\<close>.)
\<close>

definition isWhiteSpace :: "char \<Rightarrow> bool" where
  "isWhiteSpace c =
     (c \<in> set [CHR 0x09, CHR 0x0A, CHR 0x0B, CHR 0x0C, CHR 0x0D, CHR 0x20, CHR 0xA0])"

text \<open>\<open>s.trim()\<close>\<close>

definition js_trim :: "string \<Rightarrow> string" where
  "js_trim s = rev (dropWhile isWhiteSpace (rev (dropWhile isWhiteSpace s)))"

text \<open>
  \<open>s.split(sep)\<close> for a separator of one character: the pieces between the separators,
  empty pieces kept; the empty string gives one empty piece.
\<close>

function js_split :: "char \<Rightarrow> string \<Rightarrow> string list" where
  "js_split sep s =
     (case dropWhile (\<lambda>c. c \<noteq> sep) s of
        [] \<Rightarrow> [s]
      | _ # rest \<Rightarrow> takeWhile (\<lambda>c. c \<noteq> sep) s # js_split sep rest)"
  by pat_completeness auto
termination
proof (relation "measure (\<lambda>(sep, s). length s)")
  fix sep :: char and s :: string and c rest
  assume "dropWhile (\<lambda>c. c \<noteq> sep) s = c # rest"
  then have "length (c # rest) \<le> length s"
    by (metis length_dropWhile_le)
  then show "((sep, rest), (sep, s)) \<in> measure (\<lambda>(sep, s). length s)"
    by simp
qed simp

text \<open>
  \<open>s.split(/\s+/)\<close>: the pieces between the maximal runs of white space. A run at the
  start or at the end of \<open>s\<close> leaves an empty piece there, and the empty string gives one
  empty piece.
\<close>

function js_split_ws :: "string \<Rightarrow> string list" where
  "js_split_ws s =
     (case dropWhile (\<lambda>c. \<not> isWhiteSpace c) s of
        [] \<Rightarrow> [s]
      | _ # rest \<Rightarrow>
          takeWhile (\<lambda>c. \<not> isWhiteSpace c) s # js_split_ws (dropWhile isWhiteSpace rest))"
  by pat_completeness auto
termination
proof (relation "measure length")
  fix s :: string and c rest
  assume "dropWhile (\<lambda>c. \<not> isWhiteSpace c) s = c # rest"
  then have "length (c # rest) \<le> length s"
    by (metis length_dropWhile_le)
  moreover have "length (dropWhile isWhiteSpace rest) \<le> length rest"
    by (rule length_dropWhile_le)
  ultimately show "(dropWhile isWhiteSpace rest, s) \<in> measure length"
    by simp
qed simp

declare js_split.simps [simp del] js_split_ws.simps [simp del]

text \<open>\<open>a || b\<close> on strings that may be \<open>undefined\<close>: the empty string is falsy.\<close>

definition str_or :: "string option \<Rightarrow> string \<Rightarrow> string" where
  "str_or a b = (case a of None \<Rightarrow> b | Some s \<Rightarrow> if s = [] then b else s)"

subsection \<open>JSON values\<close>

text \<open>
  The values \<open>JSON.parse\<close> returns. An object is the list of its properties (keys
  distinct, as \<open>JSON.parse\<close> builds it).
\<close>

datatype json =
    JNull
  | JBool bool
  | JNumber real
  | JString string
  | JArray "json list"
  | JObject "(string \<times> json) list"

fun truthy :: "json \<Rightarrow> bool" where
  "truthy JNull = False"
| "truthy (JBool b) = b"
| "truthy (JNumber n) = (n \<noteq> 0)"
| "truthy (JString s) = (s \<noteq> [])"
| "truthy (JArray xs) = True"
| "truthy (JObject kvs) = True"

text \<open>\<open>!v\<close> for a value that may be \<open>undefined\<close> (\<open>None\<close>).\<close>

definition falsy :: "json option \<Rightarrow> bool" where
  "falsy v = (case v of None \<Rightarrow> True | Some x \<Rightarrow> \<not> truthy x)"

text \<open>\<open>a || b\<close> and \<open>a ?? b\<close> for a value \<open>a\<close> that may be \<open>undefined\<close>.\<close>

definition json_or :: "json option \<Rightarrow> json \<Rightarrow> json" where
  "json_or a b = (case a of None \<Rightarrow> b | Some x \<Rightarrow> if truthy x then x else b)"

definition json_nullish :: "json option \<Rightarrow> json \<Rightarrow> json" where
  "json_nullish a b = (case a of None \<Rightarrow> b | Some JNull \<Rightarrow> b | Some x \<Rightarrow> x)"

text \<open>
  \<open>v.k\<close> for a value \<open>v\<close> other than \<open>null\<close> and a key \<open>k\<close> among \<open>command\<close>, \<open>args\<close> and
  \<open>cwd\<close>: the property of an object, \<open>undefined\<close> (\<open>None\<close>) on every other value.
\<close>

fun get_prop :: "json \<Rightarrow> string \<Rightarrow> json option" where
  "get_prop (JObject kvs) k = map_of kvs k"
| "get_prop v k = None"

text \<open>
  The elements \<open>...v\<close> spreads into an array literal: those of an array, the characters
  of a string; any other value is not iterable (a TypeError, \<open>None\<close>).
\<close>

fun spread :: "json \<Rightarrow> json list option" where
  "spread (JArray xs) = Some xs"
| "spread (JString s) = Some (map (\<lambda>c. JString [c]) s)"
| "spread v = None"

subsection \<open>The allowlist gate\<close>

definition ALLOWLIST :: "string list" where
  "ALLOWLIST =
     [''ls'', ''grep'', ''git'', ''cat'', ''echo'', ''pwd'', ''whoami'', ''date'', ''uname'',
      ''npm'', ''npx'', ''bun'']"

definition isCommandAllowed :: "string \<Rightarrow> bool" where
  "isCommandAllowed command =
     (let pathParts = js_split CHR ''/'' command;
          lastPart = (if last pathParts \<noteq> [] then last pathParts else command);
          baseCommand = hd (js_split_ws (js_trim lastPart))
      in baseCommand \<in> set ALLOWLIST)"

text \<open>The gate of \<open>src/index.ts\<close>: nine commands, and no split on white space.\<close>

definition ALLOWLIST_index :: "string list" where
  "ALLOWLIST_index =
     [''ls'', ''grep'', ''git'', ''cat'', ''echo'', ''pwd'', ''whoami'', ''date'', ''uname'']"

definition isCommandAllowed_index :: "string \<Rightarrow> bool" where
  "isCommandAllowed_index command =
     (let popped = last (js_split CHR ''/'' command);
          baseCommand = (if popped \<noteq> [] then popped else command)
      in baseCommand \<in> set ALLOWLIST_index)"

subsection \<open>The command parser\<close>

text \<open>
  The interface \<open>CommandMessage\<close>. Its types are erased at run time: \<open>args\<close> and \<open>cwd\<close>
  hold whatever the decoded body holds, \<open>None\<close> for \<open>undefined\<close>.
\<close>

record CommandMessage =
  command :: string
  args :: "json option"
  cwd :: "json option"

text \<open>What a \<open>try\<close> block did: it threw, or it returned a value.\<close>

datatype 'a attempt = Throws string | Returns 'a

text \<open>
  \<open>body.match(/command=([^\]]+)/)\<close>: the first group of the leftmost match, that is, at
  the first position where \<open>command=\<close> stands before a character other than \<open>]\<close>, the
  characters after it up to the next \<open>]\<close> or the end. \<open>None\<close> when nothing matches.
\<close>

fun match_command :: "string \<Rightarrow> string option" where
  "match_command [] = None"
| "match_command (c # cs) =
     (let captured = takeWhile (\<lambda>x. x \<noteq> CHR '']'') (drop 8 (c # cs))
      in if prefix ''command='' (c # cs) \<and> captured \<noteq> [] then Some captured
         else match_command cs)"

text \<open>\<open>s.replace(/\]$/, '')\<close>\<close>

definition strip_bracket :: "string \<Rightarrow> string" where
  "strip_bracket s = (if s \<noteq> [] \<and> last s = CHR '']'' then butlast s else s)"

text \<open>
  The \<open>try\<close> block of \<open>parseMessage\<close>. \<open>decoded\<close> is what \<open>JSON.parse(body)\<close> did: \<open>None\<close>
  when it threw. Reading \<open>parsed.command\<close> of \<open>null\<close> throws as well.
\<close>

definition parseMessage_try :: "json option \<Rightarrow> CommandMessage option attempt" where
  "parseMessage_try decoded =
     (case decoded of
        None \<Rightarrow> Throws ''SyntaxError''
      | Some (JString s) \<Rightarrow>
          (let parts = js_split_ws (js_trim s)
           in Returns (Some \<lparr>command = hd parts,
                              args = Some (JArray (map JString (drop 1 parts))),
                              cwd = None\<rparr>))
      | Some JNull \<Rightarrow> Throws ''TypeError''
      | Some parsed \<Rightarrow>
          (case get_prop parsed ''command'' of
             Some (JString c) \<Rightarrow>
               if c \<noteq> [] then
                 Returns (Some \<lparr>command = c,
                                 args = Some (json_or (get_prop parsed ''args'') (JArray [])),
                                 cwd = get_prop parsed ''cwd''\<rparr>)
               else Returns None
           | _ \<Rightarrow> Returns None))"

text \<open>The \<open>catch\<close> block of \<open>parseMessage\<close>: the plain text fallback.\<close>

definition parseMessage_catch :: "string \<Rightarrow> CommandMessage option" where
  "parseMessage_catch body =
     (if js_trim body \<noteq> [] then
        (case match_command body of
           Some captured \<Rightarrow>
             (let commandString = strip_bracket (js_trim captured);
                  parts = js_split_ws commandString
              in Some \<lparr>command = hd parts,
                       args = Some (JArray (map JString (drop 1 parts))),
                       cwd = None\<rparr>)
         | None \<Rightarrow>
             (let parts = js_split_ws (js_trim body)
              in Some \<lparr>command = hd parts,
                       args = Some (JArray (map JString (drop 1 parts))),
                       cwd = None\<rparr>))
      else None)"

definition parseMessage :: "(string \<Rightarrow> json option) \<Rightarrow> string \<Rightarrow> CommandMessage option" where
  "parseMessage JSON_parse body =
     (case parseMessage_try (JSON_parse body) of
        Returns r \<Rightarrow> r
      | Throws e \<Rightarrow> parseMessage_catch body)"

text \<open>\<open>parseMessage\<close> of \<open>src/index.ts\<close>: the same \<open>try\<close> block, and no fallback.\<close>

definition parseMessage_index :: "(string \<Rightarrow> json option) \<Rightarrow> string \<Rightarrow> CommandMessage option" where
  "parseMessage_index JSON_parse body =
     (case parseMessage_try (JSON_parse body) of
        Returns r \<Rightarrow> r
      | Throws e \<Rightarrow> None)"

subsection \<open>The world, and the calls the worker makes\<close>

text \<open>
  \<open>QUEUE_URL\<close> and \<open>RESPONSE_QUEUE_NAME\<close> are the two constants read from the
  environment. \<open>JSON_parse body\<close> is what \<open>JSON.parse(body)\<close> does: it returns a value, or
  it throws (\<open>None\<close>).
  \<open>Bun_spawn argv cwd\<close> is what the statements from \<open>Bun.spawn\<close> to \<open>await proc.exited\<close> do:
  they throw (the message of the error), or the process exits and they return its standard
  output, its standard error and its exit code. \<open>GetQueueUrl_result name\<close> is what the
  \<open>GetQueueUrlCommand\<close> does: it throws, or it returns a response, with a \<open>QueueUrl\<close> or
  without. \<open>not_iterable v\<close> is the message of the TypeError of spreading \<open>v\<close>.
\<close>

record world =
  QUEUE_URL :: string
  RESPONSE_QUEUE_NAME :: string
  JSON_parse :: "string \<Rightarrow> json option"
  Bun_spawn :: "json list \<Rightarrow> json option \<Rightarrow> (string \<times> string \<times> int) attempt"
  GetQueueUrl_result :: "string \<Rightarrow> string option attempt"
  not_iterable :: "json \<Rightarrow> string"

text \<open>
  \<open>Spawn argv cwd\<close>: a call of \<open>Bun.spawn\<close>. \<open>GetQueueUrl name\<close>, \<open>SendMessage url body
  correlationId\<close> and \<open>DeleteMessage url receiptHandle\<close>: the commands sent on the SQS
  client. The body of \<open>SendMessage\<close> is the value \<open>JSON.stringify\<close> encodes.
\<close>

datatype event =
    Spawn "json list" "json option"
  | GetQueueUrl string
  | SendMessage string json string
  | DeleteMessage string string

text \<open>
  The result of an execution. \<open>executeCommand\<close> of \<open>src/index.ts\<close> returns an object
  with the properties \<open>success\<close>, \<open>output\<close> and \<open>error\<close>; the worker with responses adds
  \<open>exitCode\<close>.
\<close>

record ExecResult_index =
  success :: bool
  output' :: string
  error :: "string option"

record ExecResult = ExecResult_index +
  exitCode :: int

subsection \<open>The response publisher\<close>

text \<open>
  \<open>QUEUE_URL.match(/\/[^\/]+$/)\<close>: the match is the last \<open>/\<close> with the characters after
  it, when there is a \<open>/\<close> and it is not the last character.
\<close>

definition match_last_segment :: "string \<Rightarrow> string option" where
  "match_last_segment url =
     (let seg = rev (takeWhile (\<lambda>c. c \<noteq> CHR ''/'') (rev url))
      in if seg \<noteq> [] \<and> length seg < length url then Some (CHR ''/'' # seg) else None)"

definition getResponseQueueName :: "world \<Rightarrow> string" where
  "getResponseQueueName w =
     (if RESPONSE_QUEUE_NAME w \<noteq> [] then RESPONSE_QUEUE_NAME w
      else (case match_last_segment (QUEUE_URL w) of
              Some m \<Rightarrow> drop 1 m @ ''-responses''
            | None \<Rightarrow> []))"

definition responseBody :: "string \<Rightarrow> ExecResult \<Rightarrow> json" where
  "responseBody correlationId result =
     JObject [(''correlationId'', JString correlationId),
              (''success'', JBool (success result)),
              (''stdout'', JString (output' result)),
              (''stderr'', JString (str_or (error result) [])),
              (''exitCode'', JNumber (of_int (exitCode result)))]"

text \<open>
  An exception of either call is caught and logged; what \<open>SendMessage\<close> did changes
  nothing after it.
\<close>

definition sendResponse :: "world \<Rightarrow> string \<Rightarrow> ExecResult \<Rightarrow> event list" where
  "sendResponse w correlationId result =
     (let responseQueueName = getResponseQueueName w
      in if responseQueueName = [] then []
         else (case GetQueueUrl_result w responseQueueName of
                 Throws e \<Rightarrow> [GetQueueUrl responseQueueName]
               | Returns None \<Rightarrow> [GetQueueUrl responseQueueName]
               | Returns (Some queueUrl) \<Rightarrow>
                   if queueUrl = [] then [GetQueueUrl responseQueueName]
                   else [GetQueueUrl responseQueueName,
                         SendMessage queueUrl (responseBody correlationId result)
                           correlationId]))"

subsection \<open>The process executor\<close>

text \<open>
  The command of a descriptor is a string, so the executor always splits it again. The
  result comes with the call of \<open>Bun.spawn\<close>, when the executor made it.
\<close>

definition executeCommand :: "world \<Rightarrow> CommandMessage \<Rightarrow> ExecResult \<times> event list" where
  "executeCommand w cmd =
     (let args0 = json_nullish (args cmd) (JArray []);
          parts = js_split_ws (js_trim (command cmd));
          command' = hd parts;
          args' = (if falsy (args cmd) then JArray (map JString (drop 1 parts)) else args0)
      in case spread args' of
           None \<Rightarrow>
             (\<lparr>success = False, output' = [], error = Some (not_iterable w args'),
               exitCode = 1\<rparr>, [])
         | Some rest \<Rightarrow>
             (case Bun_spawn w (JString command' # rest) (cwd cmd) of
                Throws message \<Rightarrow>
                  (\<lparr>success = False, output' = [], error = Some message, exitCode = 1\<rparr>,
                   [Spawn (JString command' # rest) (cwd cmd)])
              | Returns (stdout, stderr, code) \<Rightarrow>
                  (\<lparr>success = (code = 0), output' = stdout,
                    error = (if stderr \<noteq> [] then Some stderr else None),
                    exitCode = code\<rparr>,
                   [Spawn (JString command' # rest) (cwd cmd)])))"

text \<open>
  \<open>executeCommand\<close> of \<open>src/index.ts\<close>: the command is spawned as it is, with
  \<open>cmd.args || []\<close> as its arguments, and the result has no exit code.
\<close>

definition executeCommand_index :: "world \<Rightarrow> CommandMessage \<Rightarrow> ExecResult_index \<times> event list" where
  "executeCommand_index w cmd =
     (let args' = json_or (args cmd) (JArray [])
      in case spread args' of
           None \<Rightarrow>
             (\<lparr>success = False, output' = [], error = Some (not_iterable w args')\<rparr>, [])
         | Some rest \<Rightarrow>
             (case Bun_spawn w (JString (command cmd) # rest) (cwd cmd) of
                Throws message \<Rightarrow>
                  (\<lparr>success = False, output' = [], error = Some message\<rparr>,
                   [Spawn (JString (command cmd) # rest) (cwd cmd)])
              | Returns (stdout, stderr, code) \<Rightarrow>
                  (\<lparr>success = (code = 0), output' = stdout,
                    error = (if stderr \<noteq> [] then Some stderr else None)\<rparr>,
                   [Spawn (JString (command cmd) # rest) (cwd cmd)])))"

subsection \<open>The message lifecycle\<close>

text \<open>
  A received message: \<open>Body\<close>, \<open>ReceiptHandle\<close>, \<open>MessageId\<close>, and the string value of the
  message attribute \<open>CorrelationId\<close>, each \<open>None\<close> when the message has none.
\<close>

record Message =
  Body :: "string option"
  ReceiptHandle :: "string option"
  MessageId :: "string option"
  CorrelationId :: "string option"

definition not_in_allowlist :: "string \<Rightarrow> string" where
  "not_in_allowlist c = ''Command '' @ [CHR 0x22] @ c @ [CHR 0x22] @ '' is not in the allowlist''"

text \<open>The \<open>DeleteMessageCommand\<close>, sent when the receipt handle is truthy.\<close>

definition deleteMessage :: "world \<Rightarrow> string \<Rightarrow> event list" where
  "deleteMessage w receiptHandle =
     (if receiptHandle \<noteq> [] then [DeleteMessage (QUEUE_URL w) receiptHandle] else [])"

text \<open>
  The line that logs the command before it runs evaluates \<open>(cmd.args || []).join(" ")\<close>.
  Only an array has \<open>join\<close>: on any other value the call is a TypeError. \<open>join\<close>
  converts every element other than \<open>null\<close> to a string. The conversion of an object
  calls its \<open>toString\<close>; an object of \<open>JSON.parse\<close> with a property of its own named
  \<open>toString\<close> has no callable one, and its \<open>valueOf\<close> (its own, not callable, or the
  inherited one, which returns the object) gives no primitive: a TypeError. The
  conversion of an array joins its elements in the same way. Every other value
  converts.
\<close>

fun to_string_ok :: "json \<Rightarrow> bool" where
  "to_string_ok (JObject kvs) = (map_of kvs ''toString'' = None)"
| "to_string_ok (JArray xs) = list_all to_string_ok xs"
| "to_string_ok v = True"

fun has_join :: "json \<Rightarrow> bool" where
  "has_join (JArray xs) = list_all to_string_ok xs"
| "has_join v = False"

text \<open>
  \<open>processMessage\<close> returns the calls it made, in their order. Nothing in it catches the
  TypeError of the log line: the exception leaves \<open>processMessage\<close> before any call is
  made (\<open>pollQueue\<close> catches and logs it).
\<close>

definition processMessage :: "world \<Rightarrow> Message \<Rightarrow> event list attempt" where
  "processMessage w message =
     (let body = str_or (Body message) [];
          receiptHandle = str_or (ReceiptHandle message) [];
          correlationId = str_or (CorrelationId message) (str_or (MessageId message) [])
      in case parseMessage (JSON_parse w) body of
           None \<Rightarrow> Returns []
         | Some cmd \<Rightarrow>
             if \<not> isCommandAllowed (command cmd) then
               Returns
                 ((if correlationId \<noteq> [] then
                     sendResponse w correlationId
                       \<lparr>success = False, output' = [],
                        error = Some (not_in_allowlist (command cmd)), exitCode = 1\<rparr>
                   else [])
                  @ deleteMessage w receiptHandle)
             else if \<not> has_join (json_or (args cmd) (JArray [])) then
               Throws ''TypeError''
             else
               (case executeCommand w cmd of
                  (result, spawned) \<Rightarrow>
                    Returns
                      (spawned
                       @ (if correlationId \<noteq> [] then sendResponse w correlationId result
                          else [])
                       @ deleteMessage w receiptHandle)))"

subsection \<open>Reading a trace\<close>

fun is_spawn :: "event \<Rightarrow> bool" where
  "is_spawn (Spawn argv dir) = True"
| "is_spawn e = False"

fun is_delete :: "event \<Rightarrow> bool" where
  "is_delete (DeleteMessage url receiptHandle) = True"
| "is_delete e = False"

section \<open>The notions of the specification\<close>

text \<open>
  The tokens of a string: its maximal runs of characters that are not white space, in
  their order.
\<close>

function tokens :: "string \<Rightarrow> string list" where
  "tokens s =
     (case dropWhile isWhiteSpace s of
        [] \<Rightarrow> []
      | c # cs \<Rightarrow>
          (c # takeWhile (\<lambda>x. \<not> isWhiteSpace x) cs)
          # tokens (dropWhile (\<lambda>x. \<not> isWhiteSpace x) cs))"
  by pat_completeness auto
termination
proof (relation "measure length")
  fix s :: string and c cs
  assume "dropWhile isWhiteSpace s = c # cs"
  then have "length (c # cs) \<le> length s"
    by (metis length_dropWhile_le)
  moreover have "length (dropWhile (\<lambda>x. \<not> isWhiteSpace x) cs) \<le> length cs"
    by (rule length_dropWhile_le)
  ultimately show "(dropWhile (\<lambda>x. \<not> isWhiteSpace x) cs, s) \<in> measure length"
    by simp
qed simp

declare tokens.simps [simp del]

text \<open>
  The descriptor of a list of tokens: the first one is the command, the other ones are
  the arguments, and there is no working directory. Without a token the command is
  empty.
\<close>

definition descriptor :: "string list \<Rightarrow> CommandMessage" where
  "descriptor ts =
     \<lparr>command = (case ts of [] \<Rightarrow> [] | c # rest \<Rightarrow> c),
      args = Some (JArray (map JString (drop 1 ts))),
      cwd = None\<rparr>"

text \<open>The last segment of a command: the characters after its last \<open>/\<close>.\<close>

definition last_segment :: "string \<Rightarrow> string" where
  "last_segment c = rev (takeWhile (\<lambda>x. x \<noteq> CHR ''/'') (rev c))"

text \<open>
  The allowlist check as the specification words it: the first token of the last
  segment is a member of the allowlist.
\<close>

definition isAllowed_spec :: "string \<Rightarrow> bool" where
  "isAllowed_spec c =
     (case tokens (last_segment c) of [] \<Rightarrow> False | t # ts \<Rightarrow> t \<in> set ALLOWLIST)"

text \<open>\<open>s\<close> contains \<open>pat\<close>.\<close>

definition js_includes :: "string \<Rightarrow> string \<Rightarrow> bool" where
  "js_includes pat s = list_ex (\<lambda>i. prefix pat (drop i s)) [0..<Suc (length s)]"

text \<open>
  The fallback as the specification words it: when the body contains \<open>command=\<close>, the
  text after it (after its first occurrence), up to but excluding a trailing \<open>]\<close>, is
  tokenized; otherwise the whole body is; a body without a token is a parse failure.
\<close>

fun after_command :: "string \<Rightarrow> string option" where
  "after_command [] = None"
| "after_command (c # cs) =
     (if prefix ''command='' (c # cs) then Some (drop 8 (c # cs)) else after_command cs)"

definition fallback_spec :: "string \<Rightarrow> CommandMessage option" where
  "fallback_spec body =
     (if tokens body = [] then None
      else (case after_command body of
              Some rest \<Rightarrow> Some (descriptor (tokens (strip_bracket rest)))
            | None \<Rightarrow> Some (descriptor (tokens body))))"

text \<open>
  At position \<open>i\<close> of the body stands \<open>command=\<close>, and the character after it is there
  and is not \<open>]\<close>: the pattern \<open>/command=([^\]]+)/\<close> matches at \<open>i\<close>.
\<close>

definition command_at :: "string \<Rightarrow> nat \<Rightarrow> bool" where
  "command_at body i =
     (prefix ''command='' (drop i body)
      \<and> (case drop (i + 8) body of [] \<Rightarrow> False | x # rest \<Rightarrow> x \<noteq> CHR '']''))"

text \<open>
  The consumer of a response in the round trip of the specification (no code of the
  worker reads a response): it reads the four fields of the body back.
\<close>

definition consumer_spec :: "json \<Rightarrow> ExecResult option" where
  "consumer_spec body =
     (case (get_prop body ''success'', get_prop body ''exitCode'',
            get_prop body ''stdout'', get_prop body ''stderr'') of
        (Some (JBool s), Some (JNumber n), Some (JString out), Some (JString err)) \<Rightarrow>
          Some \<lparr>success = s, output' = out, error = Some err, exitCode = \<lfloor>n\<rfloor>\<rparr>
      | _ \<Rightarrow> None)"

section \<open>A world for the examples\<close>

text \<open>
  The bodies of the scenarios of the specification, decoded as \<open>JSON.parse\<close> decodes
  them. The other bodies of the examples below (\<open>command=]x\<close>, the \<open>sqs_job\<close> line,
  \<open>ls -la\<close>, the blank and the empty body) are no JSON text: \<open>JSON.parse\<close> throws on
  them.
\<close>

definition scenario_JSON_parse :: "string \<Rightarrow> json option" where
  "scenario_JSON_parse body =
     (if body = ''\"echo hello\"'' then Some (JString ''echo hello'')
      else if body = ''\"git status\"'' then Some (JString ''git status'')
      else if body = ''{\"command\":\"rm\",\"args\":[\"-rf\",\"/\"]}'' then
        Some (JObject [(''command'', JString ''rm''),
                       (''args'', JArray [JString ''-rf'', JString ''/''])])
      else if body = ''{\"command\":\"ls\",\"args\":\"-la\"}'' then
        Some (JObject [(''command'', JString ''ls''), (''args'', JString ''-la'')])
      else if body = ''\"\"'' then Some (JString [])
      else None)"

text \<open>
  \<open>echo hello\<close> prints its line; \<open>git status\<close> fails outside a repository; no other
  program is found.
\<close>

definition scenario_spawn :: "json list \<Rightarrow> json option \<Rightarrow> (string \<times> string \<times> int) attempt" where
  "scenario_spawn argv dir =
     (if argv = [JString ''echo'', JString ''hello''] then Returns (''hello\<newline>'', [], 0)
      else if argv = [JString ''git'', JString ''status''] then
        Returns ([], ''fatal: not a git repository'', 128)
      else Throws ''ENOENT'')"

definition scenario_world :: world where
  "scenario_world =
     \<lparr>QUEUE_URL = ''https://sqs.us-east-1.amazonaws.com/123456789012/i-0abc'',
      RESPONSE_QUEUE_NAME = [],
      JSON_parse = scenario_JSON_parse,
      Bun_spawn = scenario_spawn,
      GetQueueUrl_result =
        (\<lambda>name. Returns (Some (''https://sqs.us-east-1.amazonaws.com/123456789012/'' @ name))),
      not_iterable = (\<lambda>v. ''object is not iterable'')\<rparr>"

section \<open>The string primitives\<close>

text \<open>
  Both splits return at least one piece, so that \<open>parts[0]\<close> and the last element of
  \<open>pathParts\<close> are always there.
\<close>

lemma js_split_nonempty: "js_split sep s \<noteq> []"
  by (subst js_split.simps) (simp split: list.splits)

lemma js_split_ws_nonempty: "js_split_ws s \<noteq> []"
  by (subst js_split_ws.simps) (simp split: list.splits)

lemma takeWhile_append_stop: "\<not> P y \<Longrightarrow> takeWhile P (xs @ y # ys) = takeWhile P xs"
  by (induction xs) auto

lemma last_js_split: "last (js_split sep s) = rev (takeWhile (\<lambda>x. x \<noteq> sep) (rev s))"
proof (induction sep s rule: js_split.induct)
  case (1 sep s)
  show ?case
  proof (cases "dropWhile (\<lambda>c. c \<noteq> sep) s")
    case Nil
    then have "\<forall>x\<in>set s. x \<noteq> sep" by simp
    then have tw: "takeWhile (\<lambda>x. x \<noteq> sep) (rev s) = rev s" by (simp add: takeWhile_eq_all_conv)
    show ?thesis by (subst js_split.simps) (simp add: Nil tw)
  next
    case (Cons c rest)
    then have c: "c = sep" using hd_dropWhile[of "\<lambda>c. c \<noteq> sep" s] by auto
    have s: "s = takeWhile (\<lambda>c. c \<noteq> sep) s @ sep # rest"
      using takeWhile_dropWhile_id[of "\<lambda>c. c \<noteq> sep" s] Cons c by simp
    have "rev s = rev rest @ sep # rev (takeWhile (\<lambda>c. c \<noteq> sep) s)"
      by (subst s) simp
    then have "takeWhile (\<lambda>x. x \<noteq> sep) (rev s) = takeWhile (\<lambda>x. x \<noteq> sep) (rev rest)"
      by (simp add: takeWhile_append_stop)
    moreover have "last (js_split sep s) = last (js_split sep rest)"
      by (subst js_split.simps) (simp add: Cons js_split_nonempty)
    ultimately show ?thesis using 1[OF Cons] by simp
  qed
qed

lemma tokens_dropWhile: "tokens (dropWhile isWhiteSpace s) = tokens s"
  by (subst tokens.simps, subst (2) tokens.simps) simp

lemma tokens_Nil_iff: "tokens s = [] \<longleftrightarrow> (\<forall>c\<in>set s. isWhiteSpace c)"
proof (cases "dropWhile isWhiteSpace s")
  case Nil
  moreover from Nil have "\<forall>c\<in>set s. isWhiteSpace c" by simp
  ultimately show ?thesis by (subst tokens.simps) (simp add: Nil)
next
  case (Cons c cs)
  then have "\<not> (\<forall>c\<in>set s. isWhiteSpace c)"
    using dropWhile_eq_Nil_conv[of isWhiteSpace s] by simp
  then show ?thesis by (subst tokens.simps) (simp add: Cons)
qed

lemma js_trim_Nil_iff: "js_trim s = [] \<longleftrightarrow> (\<forall>c\<in>set s. isWhiteSpace c)"
proof (cases "dropWhile isWhiteSpace s")
  case Nil
  then have "js_trim s = []" by (simp only: js_trim_def rev.simps dropWhile.simps)
  moreover from Nil have "\<forall>c\<in>set s. isWhiteSpace c" by simp
  ultimately show ?thesis by simp
next
  case (Cons c cs)
  then have nc: "\<not> isWhiteSpace c" using hd_dropWhile[of isWhiteSpace s] by auto
  have "\<not> (\<forall>c\<in>set s. isWhiteSpace c)"
    using Cons dropWhile_eq_Nil_conv[of isWhiteSpace s] by simp
  moreover have "js_trim s \<noteq> []"
    using nc by (simp add: js_trim_def Cons)
  ultimately show ?thesis by simp
qed

lemma tokens_all_ws: "\<forall>c\<in>set s. isWhiteSpace c \<Longrightarrow> tokens s = []"
  by (simp add: tokens_Nil_iff)

lemma tokens_no_ws:
  assumes "s \<noteq> []" "\<forall>c\<in>set s. \<not> isWhiteSpace c"
  shows "tokens s = [s]"
proof -
  obtain a as where s: "s = a # as" using assms(1) by (cases s) auto
  have 1: "\<not> isWhiteSpace a" using assms(2) s by simp
  have 2: "takeWhile (\<lambda>x. \<not> isWhiteSpace x) as = as" using assms(2) s by (simp add: takeWhile_eq_all_conv)
  have 3: "dropWhile (\<lambda>x. \<not> isWhiteSpace x) as = []" using assms(2) s by simp
  have 4: "tokens [] = []" by (subst tokens.simps) simp
  show ?thesis unfolding s by (subst tokens.simps) (simp add: 1 2 3 4 del: dropWhile_eq_Nil_conv)
qed

lemma tokens_start:
  assumes "s \<noteq> []" "\<not> isWhiteSpace (hd s)"
  shows "tokens s = takeWhile (\<lambda>x. \<not> isWhiteSpace x) s # tokens (dropWhile (\<lambda>x. \<not> isWhiteSpace x) s)"
proof -
  obtain a as where s: "s = a # as" using assms(1) by (cases s) auto
  have a: "\<not> isWhiteSpace a" using assms(2) s by simp
  have "dropWhile isWhiteSpace s = a # as" using a s by simp
  then show ?thesis by (subst tokens.simps) (simp add: s a)
qed

lemma js_split_ws_clean:
  "s \<noteq> [] \<Longrightarrow> \<not> isWhiteSpace (hd s) \<Longrightarrow> \<not> isWhiteSpace (last s) \<Longrightarrow> js_split_ws s = tokens s"
proof (induction s rule: js_split_ws.induct)
  case (1 s)
  show ?case
  proof (cases "dropWhile (\<lambda>c. \<not> isWhiteSpace c) s")
    case Nil
    then have "\<forall>c\<in>set s. \<not> isWhiteSpace c" by simp
    then have "tokens s = [s]" using "1.prems"(1) by (rule tokens_no_ws[rotated])
    moreover have "js_split_ws s = [s]" by (subst js_split_ws.simps) (simp add: Nil)
    ultimately show ?thesis by simp
  next
    case (Cons c rest)
    then have c: "isWhiteSpace c" using hd_dropWhile[of "\<lambda>c. \<not> isWhiteSpace c" s] by auto
    have s: "s = takeWhile (\<lambda>c. \<not> isWhiteSpace c) s @ c # rest"
      using takeWhile_dropWhile_id[of "\<lambda>c. \<not> isWhiteSpace c" s] Cons by simp
    have last_s: "last s = last (c # rest)" by (subst s) simp
    with "1.prems"(3) c have rest_ne: "rest \<noteq> []" by auto
    with last_s have last_rest: "last s = last rest" by simp
    let ?s'' = "dropWhile isWhiteSpace rest"
    have rest: "rest = takeWhile isWhiteSpace rest @ ?s''" by simp
    have ne: "?s'' \<noteq> []"
    proof
      assume "?s'' = []"
      then have "\<forall>x\<in>set rest. isWhiteSpace x" by simp
      then have "isWhiteSpace (last rest)" using rest_ne by simp
      with last_rest "1.prems"(3) show False by simp
    qed
    then have hd: "\<not> isWhiteSpace (hd ?s'')" by (rule hd_dropWhile)
    have "last rest = last ?s''" using ne by (metis last_appendR takeWhile_dropWhile_id)
    with last_rest "1.prems"(3) have lst: "\<not> isWhiteSpace (last ?s'')" by simp
    have IH: "js_split_ws ?s'' = tokens ?s''" using "1.IH"[OF Cons ne hd lst] .
    have lhs: "js_split_ws s = takeWhile (\<lambda>c. \<not> isWhiteSpace c) s # js_split_ws ?s''"
      by (subst js_split_ws.simps) (simp add: Cons)
    have "tokens (c # rest) = tokens ?s''"
      using tokens_dropWhile[of "c # rest"] c by simp
    then have rhs: "tokens s = takeWhile (\<lambda>c. \<not> isWhiteSpace c) s # tokens ?s''"
      using tokens_start[OF "1.prems"(1,2)] Cons by simp
    show ?thesis by (simp add: lhs rhs IH)
  qed
qed

lemma tokens_append_ws:
  "\<forall>c\<in>set w. isWhiteSpace c \<Longrightarrow> tokens (t @ w) = tokens t"
proof (induction t rule: tokens.induct)
  case (1 t)
  show ?case
  proof (cases "dropWhile isWhiteSpace t")
    case Nil
    then have "\<forall>c\<in>set (t @ w). isWhiteSpace c" using "1.prems" by auto
    then have "tokens (t @ w) = []" by (rule tokens_all_ws)
    moreover have "tokens t = []" using Nil by (simp add: tokens_Nil_iff)
    ultimately show ?thesis by simp
  next
    case (Cons c cs)
    then obtain x where ex: "x \<in> set t" "\<not> isWhiteSpace x"
      using dropWhile_eq_Nil_conv[of isWhiteSpace t] by auto
    have dw: "dropWhile isWhiteSpace (t @ w) = c # cs @ w"
      using dropWhile_append1[where P = isWhiteSpace and ys = w, OF ex] Cons by simp
    have lhs: "tokens (t @ w) = (c # takeWhile (\<lambda>x. \<not> isWhiteSpace x) (cs @ w))
                # tokens (dropWhile (\<lambda>x. \<not> isWhiteSpace x) (cs @ w))"
      by (subst tokens.simps) (simp add: dw)
    have rhs: "tokens t = (c # takeWhile (\<lambda>x. \<not> isWhiteSpace x) cs)
                # tokens (dropWhile (\<lambda>x. \<not> isWhiteSpace x) cs)"
      by (subst tokens.simps) (simp add: Cons)
    show ?thesis
    proof (cases "\<exists>x\<in>set cs. isWhiteSpace x")
      case True
      then have "takeWhile (\<lambda>x. \<not> isWhiteSpace x) (cs @ w) = takeWhile (\<lambda>x. \<not> isWhiteSpace x) cs"
        by (auto simp: takeWhile_append1)
      moreover have "dropWhile (\<lambda>x. \<not> isWhiteSpace x) (cs @ w) = dropWhile (\<lambda>x. \<not> isWhiteSpace x) cs @ w"
        using True by (auto simp: dropWhile_append1)
      ultimately show ?thesis using "1.IH"[OF Cons "1.prems"] lhs rhs by simp
    next
      case False
      then have all: "\<forall>x\<in>set cs. \<not> isWhiteSpace x" by simp
      have tw: "takeWhile (\<lambda>x. \<not> isWhiteSpace x) w = []" using "1.prems" by (cases w) auto
      have dw': "dropWhile (\<lambda>x. \<not> isWhiteSpace x) w = w" using "1.prems" by (cases w) auto
      have a: "takeWhile (\<lambda>x. \<not> isWhiteSpace x) (cs @ w) = cs"
        using all tw by (simp add: takeWhile_append2)
      have b: "dropWhile (\<lambda>x. \<not> isWhiteSpace x) (cs @ w) = w"
        using all dw' by (simp add: dropWhile_append2)
      have c: "tokens w = []" using "1.prems" by (rule tokens_all_ws)
      have d: "takeWhile (\<lambda>x. \<not> isWhiteSpace x) cs = cs" using all by (simp add: takeWhile_eq_all_conv)
      have e: "dropWhile (\<lambda>x. \<not> isWhiteSpace x) cs = []" using all by simp
      have f: "tokens [] = []" by (simp add: tokens_Nil_iff)
      show ?thesis unfolding lhs rhs a b c d e f ..
    qed
  qed
qed

lemma tokens_js_trim: "tokens (js_trim s) = tokens s"
proof -
  let ?t = "dropWhile isWhiteSpace s"
  have "rev ?t = takeWhile isWhiteSpace (rev ?t) @ dropWhile isWhiteSpace (rev ?t)" by simp
  then have "?t = js_trim s @ rev (takeWhile isWhiteSpace (rev ?t))"
    unfolding js_trim_def by (metis rev_append rev_rev_ident)
  moreover have "\<forall>c\<in>set (rev (takeWhile isWhiteSpace (rev ?t))). isWhiteSpace c"
    by (auto dest: set_takeWhileD)
  ultimately have "tokens ?t = tokens (js_trim s)"
    using tokens_append_ws by metis
  then show ?thesis by (simp add: tokens_dropWhile)
qed

lemma js_trim_clean:
  assumes "js_trim s \<noteq> []"
  shows "\<not> isWhiteSpace (hd (js_trim s))" "\<not> isWhiteSpace (last (js_trim s))"
proof -
  let ?t = "dropWhile isWhiteSpace s"
  let ?u = "dropWhile isWhiteSpace (rev ?t)"
  have u: "?u \<noteq> []" using assms by (simp add: js_trim_def)
  then have "\<not> isWhiteSpace (hd ?u)" by (rule hd_dropWhile)
  then show "\<not> isWhiteSpace (last (js_trim s))"
    using u by (simp add: js_trim_def last_rev)
  have t: "?t \<noteq> []" using u by (auto simp del: dropWhile_eq_Nil_conv)
  then have hdt: "\<not> isWhiteSpace (hd ?t)" by (rule hd_dropWhile)
  have "rev ?t = takeWhile isWhiteSpace (rev ?t) @ ?u" by simp
  then have "?t = js_trim s @ rev (takeWhile isWhiteSpace (rev ?t))"
    unfolding js_trim_def by (metis rev_append rev_rev_ident)
  then have "hd ?t = hd (js_trim s)" using assms by (metis hd_append2)
  with hdt show "\<not> isWhiteSpace (hd (js_trim s))" by simp
qed

lemma js_split_ws_trim:
  "js_split_ws (js_trim s) = (if tokens s = [] then [[]] else tokens s)"
proof (cases "js_trim s = []")
  case True
  then have "tokens s = []" by (simp add: tokens_Nil_iff js_trim_Nil_iff)
  moreover have "js_split_ws [] = [[]]" by (subst js_split_ws.simps) simp
  ultimately show ?thesis using True by simp
next
  case False
  then have "tokens s \<noteq> []" by (simp add: tokens_Nil_iff js_trim_Nil_iff)
  moreover have "js_split_ws (js_trim s) = tokens (js_trim s)"
    using False js_trim_clean[OF False] by (rule js_split_ws_clean)
  ultimately show ?thesis by (simp add: tokens_js_trim)
qed

lemma last_segment_js_split: "last (js_split CHR ''/'' c) = last_segment c"
  by (simp add: last_js_split last_segment_def)

lemma hd_split_trim_allowed:
  "hd (js_split_ws (js_trim s)) \<in> set ALLOWLIST
     \<longleftrightarrow> (case tokens s of [] \<Rightarrow> False | t # ts \<Rightarrow> t \<in> set ALLOWLIST)"
  by (simp add: js_split_ws_trim ALLOWLIST_def split: list.splits)

lemma last_segment_prefix: "last_segment (p @ CHR ''/'' # c) = last_segment c"
  by (simp add: last_segment_def takeWhile_append_stop)

section \<open>The allowlist gate\<close>

text \<open>
  The gate of \<open>src/index.ts\<close> compares the last segment itself (or the whole command
  when that is empty), without taking a token of it.
\<close>

lemma isCommandAllowed_index_segment:
  "isCommandAllowed_index c
     = ((if last_segment c = [] then c else last_segment c) \<in> set ALLOWLIST_index)"
  by (simp add: isCommandAllowed_index_def Let_def last_segment_js_split)

lemma isCommandAllowed_index_no_token:
  "\<not> isCommandAllowed_index ''git status'' \<and> isCommandAllowed ''git status''"
  by code_simp

text \<open>
  C2, as the code has it. Both gates take the last segment of the command, or the whole
  command when the last segment is empty (the command is empty or ends in \<open>/\<close>). The
  gate of the worker with responses allows the command when the first token of that text
  is a member of its allowlist of twelve names, and refuses it when that text has no
  token. The gate of \<open>src/index.ts\<close> allows the command when that text itself, not
  trimmed and not split, is a member of its allowlist of nine names. Membership is
  equality of strings. For either gate, a path prefix \<open>p/\<close> before a command whose last
  segment is not empty does not change the decision. Both functions are total: the list
  accesses are in range (\<open>js_split_nonempty\<close>, \<open>js_split_ws_nonempty\<close>).
\<close>

theorem isCommandAllowed_base_name:
  "isCommandAllowed c =
     (case tokens (if last_segment c = [] then c else last_segment c) of
        [] \<Rightarrow> False
      | t # ts \<Rightarrow> t \<in> set ALLOWLIST)
   \<and> (last_segment c \<noteq> [] \<longrightarrow>
        isCommandAllowed (p @ CHR ''/'' # c) = isCommandAllowed c)
   \<and> isCommandAllowed_index c
       = ((if last_segment c = [] then c else last_segment c) \<in> set ALLOWLIST_index)
   \<and> (last_segment c \<noteq> [] \<longrightarrow>
        isCommandAllowed_index (p @ CHR ''/'' # c) = isCommandAllowed_index c)"
proof -
  have eq: "\<And>c. isCommandAllowed c =
     (case tokens (if last_segment c = [] then c else last_segment c) of
        [] \<Rightarrow> False
      | t # ts \<Rightarrow> t \<in> set ALLOWLIST)"
    unfolding isCommandAllowed_def Let_def last_segment_js_split hd_split_trim_allowed
    by simp
  show ?thesis
    by (simp add: eq isCommandAllowed_index_segment last_segment_prefix)
qed

text \<open>
  \<open>/usr/bin/git\<close> and \<open>git\<close> get the same answer from either gate, and \<open>git\<close> is
  allowed by both.
\<close>

theorem isCommandAllowed_base_name_witness:
  "last_segment ''git'' \<noteq> []
   \<and> isCommandAllowed (''/usr/bin'' @ CHR ''/'' # ''git'') = isCommandAllowed ''git''
   \<and> isCommandAllowed ''git''
   \<and> isCommandAllowed_index (''/usr/bin'' @ CHR ''/'' # ''git'') = isCommandAllowed_index ''git''
   \<and> isCommandAllowed_index ''git''"
proof -
  have h: "last_segment ''git'' \<noteq> []"
    by code_simp
  have a: "isCommandAllowed ''git''" "isCommandAllowed_index ''git''"
    by code_simp+
  from isCommandAllowed_base_name [of "''git''" "''/usr/bin''"] h
  have "isCommandAllowed (''/usr/bin'' @ CHR ''/'' # ''git'') = isCommandAllowed ''git''
      \<and> isCommandAllowed_index (''/usr/bin'' @ CHR ''/'' # ''git'') = isCommandAllowed_index ''git''"
    by blast
  with h a show ?thesis
    by simp
qed

text \<open>
  C2 as it is stated fails on \<open>git /\<close>, for the gate of the worker with responses. The
  last segment of \<open>git /\<close> is empty, so the stated check refuses it; the code falls back
  to the whole command, whose first token is \<open>git\<close>, and allows it. With the prefix
  \<open>/usr/bin/\<close> before it the code refuses it: the decision changed with the prefix.
  For the gate of \<open>src/index.ts\<close> it fails on \<open>git status\<close>: the first token of the last
  segment is \<open>git\<close>, and the gate compares the whole segment and refuses it.
\<close>

theorem isCommandAllowed_trailing_slash:
  "isCommandAllowed ''git /'' \<and> \<not> isAllowed_spec ''git /''
   \<and> \<not> isCommandAllowed (''/usr/bin/'' @ ''git /'')
   \<and> isAllowed_spec ''git status'' \<and> \<not> isCommandAllowed_index ''git status''"
  by code_simp

section \<open>The command parser\<close>

text \<open>
  Trimming and splitting a text gives its tokens, and one empty piece when it has none:
  the descriptor built from \<open>parts[0]\<close> and \<open>parts.slice(1)\<close> is the descriptor of the
  tokens.
\<close>

lemma split_descriptor:
  "\<lparr>command = hd (js_split_ws (js_trim s)),
    args = Some (JArray (map JString (drop 1 (js_split_ws (js_trim s))))),
    cwd = None\<rparr> = descriptor (tokens s)"
  by (cases "tokens s") (simp_all add: js_split_ws_trim descriptor_def)

lemma parseMessage_try_string:
  "parseMessage_try (Some (JString s)) = Returns (Some (descriptor (tokens s)))"
  unfolding parseMessage_try_def Let_def split_descriptor by simp

text \<open>
  C4. When the body decodes to a string with at least one token, the parser returns the
  descriptor whose command is the first token and whose arguments are the other tokens
  in their order, without a working directory. The parser of \<open>src/index.ts\<close> does the
  same.
\<close>

theorem parseMessage_json_string:
  "decode body = Some (JString s) \<Longrightarrow> tokens s = c # rest \<Longrightarrow>
     parseMessage decode body
       = Some \<lparr>command = c, args = Some (JArray (map JString rest)), cwd = None\<rparr>
     \<and> parseMessage_index decode body
       = Some \<lparr>command = c, args = Some (JArray (map JString rest)), cwd = None\<rparr>"
  by (simp add: parseMessage_def parseMessage_index_def parseMessage_try_string descriptor_def)

text \<open>The body \<open>"echo hello"\<close> of scenario A.\<close>

theorem parseMessage_json_string_witness:
  "scenario_JSON_parse ''\"echo hello\"'' = Some (JString ''echo hello'')
   \<and> tokens ''echo hello'' = [''echo'', ''hello'']
   \<and> parseMessage scenario_JSON_parse ''\"echo hello\"''
       = Some \<lparr>command = ''echo'', args = Some (JArray [JString ''hello'']), cwd = None\<rparr>"
proof -
  have d: "scenario_JSON_parse ''\"echo hello\"'' = Some (JString ''echo hello'')"
    by (simp add: scenario_JSON_parse_def)
  have t: "tokens ''echo hello'' = [''echo'', ''hello'']"
    by code_simp
  from parseMessage_json_string
         [of scenario_JSON_parse "''\"echo hello\"''" "''echo hello''" "''echo''" "[''hello'']"]
       d t
  show ?thesis
    by simp
qed

subsection \<open>The plain text fallback\<close>

text \<open>
  The pattern \<open>/command=([^\]]+)/\<close> matches at the first position where \<open>command_at\<close>
  holds, and its group runs from there to the next \<open>]\<close> or to the end of the body.
\<close>

lemma takeWhile_nonempty:
  "takeWhile P xs \<noteq> [] \<longleftrightarrow> (case xs of [] \<Rightarrow> False | x # rest \<Rightarrow> P x)"
  by (cases xs) auto

lemma command_at_0:
  "command_at body 0 \<longleftrightarrow>
     prefix ''command='' body \<and> takeWhile (\<lambda>x. x \<noteq> CHR '']'') (drop 8 body) \<noteq> []"
  by (simp add: command_at_def takeWhile_nonempty)

lemma command_at_Suc: "command_at (c # cs) (Suc i) = command_at cs i"
  by (simp only: command_at_def add_Suc drop_Suc_Cons)

lemma match_command_Cons:
  "match_command (c # cs) =
     (if command_at (c # cs) 0 then Some (takeWhile (\<lambda>x. x \<noteq> CHR '']'') (drop 8 (c # cs)))
      else match_command cs)"
  by (simp only: match_command.simps command_at_0 Let_def)

lemma command_at_Nil: "\<not> command_at [] i"
  by (simp add: command_at_def)

lemma match_command_first:
  "command_at body i \<Longrightarrow> (\<forall>j<i. \<not> command_at body j) \<Longrightarrow>
     match_command body = Some (takeWhile (\<lambda>x. x \<noteq> CHR '']'') (drop (i + 8) body))"
proof (induction body arbitrary: i)
  case Nil
  then show ?case by (simp add: command_at_Nil)
next
  case (Cons c cs)
  show ?case
  proof (cases "command_at (c # cs) 0")
    case True
    then have "i = 0" using Cons.prems(2) by (cases i) auto
    with True show ?thesis by (simp add: match_command_Cons del: match_command.simps)
  next
    case False
    then obtain i' where i: "i = Suc i'" using Cons.prems(1) by (cases i) auto
    have a: "command_at cs i'" using Cons.prems(1) i by (simp add: command_at_Suc)
    have b: "\<forall>j<i'. \<not> command_at cs j"
    proof (intro allI impI)
      fix j assume "j < i'"
      then have "\<not> command_at (c # cs) (Suc j)" using Cons.prems(2) i by simp
      then show "\<not> command_at cs j" by (simp add: command_at_Suc)
    qed
    have m: "match_command (c # cs) = match_command cs"
      using False by (simp add: match_command_Cons del: match_command.simps)
    have d: "drop (i + 8) (c # cs) = drop (i' + 8) cs"
      unfolding i by (simp only: add_Suc drop_Suc_Cons)
    show ?thesis unfolding m d using Cons.IH[OF a b] .
  qed
qed

lemma match_command_None:
  "(\<forall>j. \<not> command_at body j) \<Longrightarrow> match_command body = None"
proof (induction body)
  case Nil
  then show ?case by simp
next
  case (Cons c cs)
  have "\<forall>j. \<not> command_at cs j"
  proof
    fix j
    have "\<not> command_at (c # cs) (Suc j)" using Cons.prems by blast
    then show "\<not> command_at cs j" by (simp add: command_at_Suc)
  qed
  moreover have "\<not> command_at (c # cs) 0" using Cons.prems by blast
  ultimately show ?case using Cons.IH by (simp add: match_command_Cons del: match_command.simps)
qed

lemma set_js_trim: "set (js_trim s) \<subseteq> set s"
  unfolding js_trim_def by (auto dest!: set_dropWhileD)

lemma strip_bracket_capture:
  "strip_bracket (js_trim (takeWhile (\<lambda>x. x \<noteq> CHR '']'') s))
     = js_trim (takeWhile (\<lambda>x. x \<noteq> CHR '']'') s)"
proof -
  let ?t = "js_trim (takeWhile (\<lambda>x. x \<noteq> CHR '']'') s)"
  have "CHR '']'' \<notin> set ?t"
    using set_js_trim[of "takeWhile (\<lambda>x. x \<noteq> CHR '']'') s"] by (auto dest: set_takeWhileD)
  then have "?t \<noteq> [] \<Longrightarrow> last ?t \<noteq> CHR '']''"
    using last_in_set by metis
  then show ?thesis by (auto simp: strip_bracket_def)
qed

lemma command_at_tokens: "command_at body i \<Longrightarrow> tokens body \<noteq> []"
proof -
  assume "command_at body i"
  then have "prefix ''command='' (drop i body)" by (simp add: command_at_def)
  then have "CHR ''c'' \<in> set (drop i body)" by (auto simp: prefix_def)
  then have "CHR ''c'' \<in> set body" by (rule in_set_dropD)
  moreover have "\<not> isWhiteSpace CHR ''c''" by (simp add: isWhiteSpace_def)
  ultimately show ?thesis by (auto simp: tokens_Nil_iff)
qed

lemma parseMessage_catch_blank: "tokens body = [] \<Longrightarrow> parseMessage_catch body = None"
  by (simp add: parseMessage_catch_def tokens_Nil_iff js_trim_Nil_iff)

lemma parseMessage_catch_match:
  assumes "command_at body i" "\<forall>j<i. \<not> command_at body j"
  shows "parseMessage_catch body
     = Some (descriptor (tokens (takeWhile (\<lambda>x. x \<noteq> CHR '']'') (drop (i + 8) body))))"
proof -
  have "js_trim body \<noteq> []"
    using command_at_tokens[OF assms(1)] by (simp add: tokens_Nil_iff js_trim_Nil_iff)
  then show ?thesis
    unfolding parseMessage_catch_def match_command_first[OF assms] option.case Let_def
      strip_bracket_capture split_descriptor
    by simp
qed

lemma parseMessage_catch_whole:
  assumes "tokens body \<noteq> []" "\<forall>j. \<not> command_at body j"
  shows "parseMessage_catch body = Some (descriptor (tokens body))"
proof -
  have "js_trim body \<noteq> []"
    using assms(1) by (simp add: tokens_Nil_iff js_trim_Nil_iff)
  then show ?thesis
    unfolding parseMessage_catch_def match_command_None[OF assms(2)] option.case Let_def
      split_descriptor
    by simp
qed

text \<open>
  C5, as the code has it. When \<open>JSON.parse\<close> throws on the body:
  a body without a token (empty, or white space only) is a parse failure;
  when \<open>i\<close> is the first position where \<open>command=\<close> stands before a character other
  than \<open>]\<close>, the text after that \<open>command=\<close>, up to but excluding the next \<open>]\<close> (or up
  to the end of the body), when it has a token, is tokenized into the command and the
  arguments;
  when there is no such position and the body has a token, the whole body is tokenized.
\<close>

theorem parseMessage_fallback:
  assumes "decode body = None"
  shows "(tokens body = [] \<longrightarrow> parseMessage decode body = None)
       \<and> (command_at body i \<longrightarrow> (\<forall>j<i. \<not> command_at body j) \<longrightarrow>
            tokens (takeWhile (\<lambda>x. x \<noteq> CHR '']'') (drop (i + 8) body)) = c # rest \<longrightarrow>
            parseMessage decode body
              = Some \<lparr>command = c, args = Some (JArray (map JString rest)), cwd = None\<rparr>)
       \<and> ((\<forall>j. \<not> command_at body j) \<longrightarrow> tokens body = c # rest \<longrightarrow>
            parseMessage decode body
              = Some \<lparr>command = c, args = Some (JArray (map JString rest)), cwd = None\<rparr>)"
proof -
  have "parseMessage decode body = parseMessage_catch body"
    using assms by (simp add: parseMessage_def parseMessage_try_def)
  then show ?thesis
    using parseMessage_catch_blank parseMessage_catch_match parseMessage_catch_whole
    by (auto simp: descriptor_def)
qed

text \<open>
  The blank body; the line \<open>sqs_job [instanceId=i-0abc, command=git clone x]\<close>, where
  \<open>command=\<close> stands at position 28 and nowhere before; the body \<open>ls -la\<close>, which has no
  \<open>command=\<close>.
\<close>

theorem parseMessage_fallback_witness:
  "scenario_JSON_parse ''   '' = None
   \<and> tokens ''   '' = []
   \<and> parseMessage scenario_JSON_parse ''   '' = None
   \<and> scenario_JSON_parse ''sqs_job [instanceId=i-0abc, command=git clone x]'' = None
   \<and> command_at ''sqs_job [instanceId=i-0abc, command=git clone x]'' 28
   \<and> list_all (\<lambda>j. \<not> command_at ''sqs_job [instanceId=i-0abc, command=git clone x]'' j) [0..<28]
   \<and> tokens (takeWhile (\<lambda>x. x \<noteq> CHR '']'')
         (drop (28 + 8) ''sqs_job [instanceId=i-0abc, command=git clone x]''))
       = [''git'', ''clone'', ''x'']
   \<and> parseMessage scenario_JSON_parse ''sqs_job [instanceId=i-0abc, command=git clone x]''
       = Some \<lparr>command = ''git'', args = Some (JArray [JString ''clone'', JString ''x'']),
               cwd = None\<rparr>
   \<and> scenario_JSON_parse ''ls -la'' = None
   \<and> tokens ''ls -la'' = [''ls'', ''-la'']
   \<and> list_all (\<lambda>j. \<not> command_at ''ls -la'' j) [0..<7]
   \<and> parseMessage scenario_JSON_parse ''ls -la''
       = Some \<lparr>command = ''ls'', args = Some (JArray [JString ''-la'']), cwd = None\<rparr>"
proof -
  let ?job = "''sqs_job [instanceId=i-0abc, command=git clone x]''"
  have d1: "scenario_JSON_parse ''   '' = None"
    by code_simp
  have t1: "tokens ''   '' = []"
    by code_simp
  have d2: "scenario_JSON_parse ?job = None"
    by code_simp
  have at: "command_at ?job 28"
    by code_simp
  have before: "list_all (\<lambda>j. \<not> command_at ?job j) [0..<28]"
    by code_simp
  then have first: "\<forall>j<28. \<not> command_at ?job j"
    by (simp only: list_all_iff set_upt atLeastLessThan_iff) simp
  have cap: "tokens (takeWhile (\<lambda>x. x \<noteq> CHR '']'') (drop (28 + 8) ?job)) = [''git'', ''clone'', ''x'']"
    by code_simp
  have d3: "scenario_JSON_parse ''ls -la'' = None"
    by code_simp
  have t3: "tokens ''ls -la'' = [''ls'', ''-la'']"
    by code_simp
  have nowhere: "list_all (\<lambda>j. \<not> command_at ''ls -la'' j) [0..<7]"
    by code_simp
  have never: "\<forall>j. \<not> command_at ''ls -la'' j"
  proof
    fix j
    show "\<not> command_at ''ls -la'' j"
    proof (cases "j < 7")
      case True
      with nowhere show ?thesis
        by (simp only: list_all_iff set_upt atLeastLessThan_iff) simp
    next
      case False
      then show ?thesis by (simp add: command_at_def)
    qed
  qed
  have r1: "parseMessage scenario_JSON_parse ''   '' = None"
    using parseMessage_fallback [where decode = scenario_JSON_parse and body = "''   ''", OF d1] t1
    by simp
  have r2: "parseMessage scenario_JSON_parse ?job
       = Some \<lparr>command = ''git'', args = Some (JArray [JString ''clone'', JString ''x'']),
               cwd = None\<rparr>"
    using parseMessage_fallback
            [where decode = scenario_JSON_parse and body = ?job and i = 28 and c = "''git''"
               and rest = "[''clone'', ''x'']", OF d2]
          at first cap
    by simp
  have r3: "parseMessage scenario_JSON_parse ''ls -la''
       = Some \<lparr>command = ''ls'', args = Some (JArray [JString ''-la'']), cwd = None\<rparr>"
    using parseMessage_fallback
            [where decode = scenario_JSON_parse and body = "''ls -la''" and c = "''ls''"
               and rest = "[''-la'']", OF d3]
          t3 never
    by simp
  show ?thesis
    using d1 t1 r1 d2 at before cap r2 d3 t3 nowhere r3 by simp
qed

text \<open>
  C5 as it is stated fails on the body \<open>command=]x\<close>. The body contains \<open>command=\<close>, and
  the text after it, \<open>]x\<close>, has no trailing \<open>]\<close>: as stated, the command is \<open>]x\<close>. The
  pattern does not match, since \<open>]\<close> follows \<open>command=\<close>, and the code tokenizes the
  whole body: the command is \<open>command=]x\<close>.
\<close>

theorem parseMessage_fallback_bracket:
  "scenario_JSON_parse ''command=]x'' = None
   \<and> js_includes ''command='' ''command=]x''
   \<and> parseMessage scenario_JSON_parse ''command=]x''
       = Some \<lparr>command = ''command=]x'', args = Some (JArray []), cwd = None\<rparr>
   \<and> fallback_spec ''command=]x''
       = Some \<lparr>command = '']x'', args = Some (JArray []), cwd = None\<rparr>"
  by code_simp

text \<open>
  The group of the pattern stops at the first \<open>]\<close>: on \<open>command=echo a]b]\<close> the code
  reads the argument \<open>a\<close>, where the text up to the trailing \<open>]\<close> has the argument
  \<open>a]b\<close>.
\<close>

lemma parseMessage_fallback_first_bracket:
  "parseMessage scenario_JSON_parse ''command=echo a]b]''
     = Some \<lparr>command = ''echo'', args = Some (JArray [JString ''a'']), cwd = None\<rparr>
   \<and> fallback_spec ''command=echo a]b]''
     = Some \<lparr>command = ''echo'', args = Some (JArray [JString ''a]b'']), cwd = None\<rparr>"
  by code_simp

subsection \<open>The command of a descriptor\<close>

text \<open>
  A token is not empty. The command of a parsed descriptor is empty only when the text
  that was split has no token: the decoded string, or the group of the pattern.
\<close>

lemma tokens_hd_nonempty: "tokens s = t # ts \<Longrightarrow> t \<noteq> []"
  by (subst (asm) tokens.simps) (auto split: list.splits)

lemma descriptor_command_empty: "command (descriptor ts) = [] \<Longrightarrow> tokens s = ts \<Longrightarrow> ts = []"
  by (cases ts) (auto simp: descriptor_def dest: tokens_hd_nonempty)

lemma match_command_Some:
  "match_command body = Some cap \<Longrightarrow> \<exists>i. cap = takeWhile (\<lambda>x. x \<noteq> CHR '']'') (drop i body)"
proof (induction body)
  case Nil
  then show ?case by simp
next
  case (Cons c cs)
  show ?case
  proof (cases "command_at (c # cs) 0")
    case True
    with Cons.prems have "cap = takeWhile (\<lambda>x. x \<noteq> CHR '']'') (drop 8 (c # cs))"
      by (simp add: match_command_Cons del: match_command.simps)
    then show ?thesis by blast
  next
    case False
    with Cons.prems have "match_command cs = Some cap"
      by (simp add: match_command_Cons del: match_command.simps)
    then obtain i where "cap = takeWhile (\<lambda>x. x \<noteq> CHR '']'') (drop i cs)"
      using Cons.IH by blast
    then have "cap = takeWhile (\<lambda>x. x \<noteq> CHR '']'') (drop (Suc i) (c # cs))"
      by simp
    then show ?thesis by blast
  qed
qed

lemma parseMessage_catch_command_empty:
  assumes "parseMessage_catch body = Some cmd" "command cmd = []"
  shows "\<exists>cap. match_command body = Some cap \<and> tokens cap = []"
proof (cases "match_command body")
  case None
  from assms(1) have ne: "js_trim body \<noteq> []"
    by (auto simp: parseMessage_catch_def split: if_splits)
  with assms(1) None have "cmd = descriptor (tokens body)"
    unfolding parseMessage_catch_def Let_def split_descriptor by simp
  with assms(2) have "tokens body = []"
    by (auto dest: descriptor_command_empty)
  with ne show ?thesis
    by (simp add: tokens_Nil_iff js_trim_Nil_iff)
next
  case (Some cap)
  then obtain i where cap: "cap = takeWhile (\<lambda>x. x \<noteq> CHR '']'') (drop i body)"
    using match_command_Some by blast
  from assms(1) have ne: "js_trim body \<noteq> []"
    by (auto simp: parseMessage_catch_def split: if_splits)
  have "parseMessage_catch body = Some (descriptor (tokens cap))"
    using ne unfolding parseMessage_catch_def Some option.case Let_def cap
      strip_bracket_capture split_descriptor
    by simp
  with assms have "tokens cap = []"
    by (auto dest: descriptor_command_empty)
  with Some show ?thesis by simp
qed

lemma parseMessage_try_command_empty:
  assumes "parseMessage_try decoded = Returns (Some cmd)" "command cmd = []"
  shows "\<exists>s. decoded = Some (JString s) \<and> tokens s = []"
proof (cases decoded)
  case None
  with assms(1) show ?thesis by (simp add: parseMessage_try_def)
next
  case (Some v)
  show ?thesis
  proof (cases v)
    case (JString s)
    with Some assms(1) have "cmd = descriptor (tokens s)"
      by (simp add: parseMessage_try_string)
    with assms(2) have "tokens s = []"
      by (auto dest: descriptor_command_empty)
    with Some JString show ?thesis by simp
  qed (insert Some assms,
      auto simp: parseMessage_try_def split: option.splits json.splits if_splits)
qed

lemma parseMessage_command_empty:
  assumes "parseMessage decode body = Some cmd" "command cmd = []"
  shows "(\<exists>s. decode body = Some (JString s) \<and> tokens s = [])
       \<or> (\<exists>cap. match_command body = Some cap \<and> tokens cap = [])"
proof (cases "parseMessage_try (decode body)")
  case (Throws e)
  with assms(1) have "parseMessage_catch body = Some cmd"
    by (simp add: parseMessage_def)
  with assms(2) show ?thesis
    by (auto dest: parseMessage_catch_command_empty)
next
  case (Returns r)
  with assms(1) have "parseMessage_try (decode body) = Returns (Some cmd)"
    by (simp add: parseMessage_def)
  with assms(2) show ?thesis
    by (auto dest: parseMessage_try_command_empty)
qed

text \<open>
  C8, at the body \<open>""\<close> (the JSON text of the empty string). \<open>JSON.parse\<close> returns the
  empty string, its trimmed text splits into one empty piece, and the parser returns a
  descriptor with the empty command. The object form is guarded (\<open>parsed.command &&\<close>)
  and the fallback is guarded (\<open>body.trim().length > 0\<close>); the string form is not,
  in either source file.
\<close>

theorem parseMessage_empty_command:
  "scenario_JSON_parse ''\"\"'' = Some (JString [])
   \<and> parseMessage scenario_JSON_parse ''\"\"''
       = Some \<lparr>command = [], args = Some (JArray []), cwd = None\<rparr>
   \<and> parseMessage_index scenario_JSON_parse ''\"\"''
       = Some \<lparr>command = [], args = Some (JArray []), cwd = None\<rparr>"
  by code_simp

section \<open>The process executor\<close>

text \<open>The executor calls \<open>Bun.spawn\<close> once, or not at all, and sends nothing.\<close>

lemma executeCommand_events:
  "snd (executeCommand w cmd) = []
   \<or> (\<exists>argv. snd (executeCommand w cmd) = [Spawn argv (cwd cmd)])"
  by (simp add: executeCommand_def Let_def split: option.splits attempt.splits prod.splits)

lemma executeCommand_no_delete [simp]:
  "filter is_delete (snd (executeCommand w cmd)) = []"
  using executeCommand_events[of w cmd] by auto

text \<open>
  When the \<open>args\<close> of the descriptor are absent or an array, both executors call
  \<open>Bun.spawn\<close>.
\<close>

lemma executeCommand_spawns:
  "args cmd = None \<or> (\<exists>xs. args cmd = Some (JArray xs)) \<Longrightarrow>
     \<exists>argv. snd (executeCommand w cmd) = [Spawn argv (cwd cmd)]"
  by (auto simp: executeCommand_def Let_def falsy_def json_nullish_def
      split: attempt.splits prod.splits)

lemma executeCommand_index_spawns:
  "(args cmd = None \<longrightarrow>
      snd (executeCommand_index w cmd) = [Spawn [JString (command cmd)] (cwd cmd)])
   \<and> (args cmd = Some (JArray xs) \<longrightarrow>
      snd (executeCommand_index w cmd) = [Spawn (JString (command cmd) # xs) (cwd cmd)])"
  by (auto simp: executeCommand_index_def Let_def json_or_def
      split: attempt.splits prod.splits)

text \<open>
  C6, as the code has it. Both executors call \<open>Bun.spawn\<close> when the \<open>args\<close> of the
  descriptor are absent or an array (the executor of \<open>src/index.ts\<close> with the command as
  it is and these arguments). When the process exits, \<open>success\<close> says whether its exit
  code is zero. When \<open>Bun.spawn\<close> (or reading the streams) throws, or the arguments
  cannot be spread, the exception is caught and returned as the result: each function
  returns a result in every case. The worker with responses returns
  \<open>{success: false, output: "", error: message, exitCode: 1}\<close>, and every result of it
  has \<open>success\<close> exactly when its \<open>exitCode\<close> is zero. The executor of \<open>src/index.ts\<close>
  returns \<open>{success: false, output: "", error: message}\<close>: its results have no
  \<open>exitCode\<close>.
\<close>

theorem executeCommand_result:
  "(success (fst (executeCommand w cmd)) \<longleftrightarrow> exitCode (fst (executeCommand w cmd)) = 0)
   \<and> (args cmd = None \<or> (\<exists>ys. args cmd = Some (JArray ys)) \<longrightarrow>
        (\<exists>argv. snd (executeCommand w cmd) = [Spawn argv (cwd cmd)]))
   \<and> (\<forall>argv. snd (executeCommand w cmd) = [Spawn argv (cwd cmd)] \<longrightarrow>
        (case Bun_spawn w argv (cwd cmd) of
           Throws message \<Rightarrow>
             fst (executeCommand w cmd)
               = \<lparr>success = False, output' = [], error = Some message, exitCode = 1\<rparr>
         | Returns (out, err, code) \<Rightarrow>
             exitCode (fst (executeCommand w cmd)) = code
             \<and> success (fst (executeCommand w cmd)) = (code = 0)))
   \<and> (snd (executeCommand w cmd) = [] \<longrightarrow>
        (\<exists>message. fst (executeCommand w cmd)
           = \<lparr>success = False, output' = [], error = Some message, exitCode = 1\<rparr>))
   \<and> (args cmd = None \<longrightarrow>
        snd (executeCommand_index w cmd) = [Spawn [JString (command cmd)] (cwd cmd)])
   \<and> (args cmd = Some (JArray xs) \<longrightarrow>
        snd (executeCommand_index w cmd) = [Spawn (JString (command cmd) # xs) (cwd cmd)])
   \<and> (\<forall>argv. snd (executeCommand_index w cmd) = [Spawn argv (cwd cmd)] \<longrightarrow>
        (case Bun_spawn w argv (cwd cmd) of
           Throws message \<Rightarrow>
             fst (executeCommand_index w cmd)
               = \<lparr>success = False, output' = [], error = Some message\<rparr>
         | Returns (out, err, code) \<Rightarrow>
             success (fst (executeCommand_index w cmd)) = (code = 0)))
   \<and> (snd (executeCommand_index w cmd) = [] \<longrightarrow>
        (\<exists>message. fst (executeCommand_index w cmd)
           = \<lparr>success = False, output' = [], error = Some message\<rparr>))"
proof -
  have 1: "success (fst (executeCommand w cmd)) \<longleftrightarrow> exitCode (fst (executeCommand w cmd)) = 0"
    by (simp add: executeCommand_def Let_def split: option.splits attempt.splits prod.splits)
  have 2: "args cmd = None \<or> (\<exists>ys. args cmd = Some (JArray ys)) \<longrightarrow>
        (\<exists>argv. snd (executeCommand w cmd) = [Spawn argv (cwd cmd)])"
    using executeCommand_spawns by blast
  have 3: "\<forall>argv. snd (executeCommand w cmd) = [Spawn argv (cwd cmd)] \<longrightarrow>
        (case Bun_spawn w argv (cwd cmd) of
           Throws message \<Rightarrow>
             fst (executeCommand w cmd)
               = \<lparr>success = False, output' = [], error = Some message, exitCode = 1\<rparr>
         | Returns (out, err, code) \<Rightarrow>
             exitCode (fst (executeCommand w cmd)) = code
             \<and> success (fst (executeCommand w cmd)) = (code = 0))"
    by (simp add: executeCommand_def Let_def split: option.splits attempt.splits prod.splits)
  have 4: "snd (executeCommand w cmd) = [] \<longrightarrow>
        (\<exists>message. fst (executeCommand w cmd)
           = \<lparr>success = False, output' = [], error = Some message, exitCode = 1\<rparr>)"
    by (simp add: executeCommand_def Let_def split: option.splits attempt.splits prod.splits)
  have 7: "\<forall>argv. snd (executeCommand_index w cmd) = [Spawn argv (cwd cmd)] \<longrightarrow>
        (case Bun_spawn w argv (cwd cmd) of
           Throws message \<Rightarrow>
             fst (executeCommand_index w cmd)
               = \<lparr>success = False, output' = [], error = Some message\<rparr>
         | Returns (out, err, code) \<Rightarrow>
             success (fst (executeCommand_index w cmd)) = (code = 0))"
    by (simp add: executeCommand_index_def Let_def split: option.splits attempt.splits prod.splits)
  have 8: "snd (executeCommand_index w cmd) = [] \<longrightarrow>
        (\<exists>message. fst (executeCommand_index w cmd)
           = \<lparr>success = False, output' = [], error = Some message\<rparr>)"
    by (simp add: executeCommand_index_def Let_def split: option.splits attempt.splits prod.splits)
  from 1 2 3 4 executeCommand_index_spawns [of cmd w xs] 7 8 show ?thesis
    by blast
qed

text \<open>
  \<open>rm\<close> is not found: the failure is the result of either executor. \<open>git status\<close>
  exits with 128: the result has this exit code and no success. \<open>echo hello\<close> exits
  with 0: the result of \<open>src/index.ts\<close> has success.
\<close>

theorem executeCommand_result_witness:
  "args \<lparr>command = ''rm'', args = Some (JArray [JString ''-rf'', JString ''/'']), cwd = None\<rparr>
     = Some (JArray [JString ''-rf'', JString ''/''])
   \<and> snd (executeCommand scenario_world
          \<lparr>command = ''rm'', args = Some (JArray [JString ''-rf'', JString ''/'']), cwd = None\<rparr>)
       = [Spawn [JString ''rm'', JString ''-rf'', JString ''/''] None]
   \<and> snd (executeCommand_index scenario_world
          \<lparr>command = ''rm'', args = Some (JArray [JString ''-rf'', JString ''/'']), cwd = None\<rparr>)
       = [Spawn [JString ''rm'', JString ''-rf'', JString ''/''] None]
   \<and> Bun_spawn scenario_world [JString ''rm'', JString ''-rf'', JString ''/''] None
       = Throws ''ENOENT''
   \<and> fst (executeCommand scenario_world
          \<lparr>command = ''rm'', args = Some (JArray [JString ''-rf'', JString ''/'']), cwd = None\<rparr>)
       = \<lparr>success = False, output' = [], error = Some ''ENOENT'', exitCode = 1\<rparr>
   \<and> fst (executeCommand_index scenario_world
          \<lparr>command = ''rm'', args = Some (JArray [JString ''-rf'', JString ''/'']), cwd = None\<rparr>)
       = \<lparr>success = False, output' = [], error = Some ''ENOENT''\<rparr>
   \<and> snd (executeCommand scenario_world
          \<lparr>command = ''git status'', args = None, cwd = None\<rparr>)
       = [Spawn [JString ''git'', JString ''status''] None]
   \<and> Bun_spawn scenario_world [JString ''git'', JString ''status''] None
       = Returns ([], ''fatal: not a git repository'', 128)
   \<and> exitCode (fst (executeCommand scenario_world
          \<lparr>command = ''git status'', args = None, cwd = None\<rparr>)) = 128
   \<and> \<not> success (fst (executeCommand scenario_world
          \<lparr>command = ''git status'', args = None, cwd = None\<rparr>))
   \<and> snd (executeCommand_index scenario_world
          \<lparr>command = ''echo'', args = Some (JArray [JString ''hello'']), cwd = None\<rparr>)
       = [Spawn [JString ''echo'', JString ''hello''] None]
   \<and> Bun_spawn scenario_world [JString ''echo'', JString ''hello''] None
       = Returns (''hello\<newline>'', [], 0)
   \<and> success (fst (executeCommand_index scenario_world
          \<lparr>command = ''echo'', args = Some (JArray [JString ''hello'']), cwd = None\<rparr>))"
proof -
  let ?rm = "\<lparr>command = ''rm'', args = Some (JArray [JString ''-rf'', JString ''/'']),
              cwd = None\<rparr>"
  let ?git = "\<lparr>command = ''git status'', args = None, cwd = None\<rparr>"
  let ?echo = "\<lparr>command = ''echo'', args = Some (JArray [JString ''hello'']), cwd = None\<rparr>"
  note rm = executeCommand_result
      [where w = scenario_world and cmd = ?rm and xs = "[JString ''-rf'', JString ''/'']"]
  note git = executeCommand_result [where w = scenario_world and cmd = ?git and xs = "[]"]
  note echo = executeCommand_result
      [where w = scenario_world and cmd = ?echo and xs = "[JString ''hello'']"]
  have a1: "args ?rm = Some (JArray [JString ''-rf'', JString ''/''])"
    by simp
  have e1: "snd (executeCommand scenario_world ?rm)
      = [Spawn [JString ''rm'', JString ''-rf'', JString ''/''] (cwd ?rm)]"
    by code_simp
  have i1: "snd (executeCommand_index scenario_world ?rm)
      = [Spawn [JString ''rm'', JString ''-rf'', JString ''/''] (cwd ?rm)]"
    using rm a1 by simp
  have s1: "Bun_spawn scenario_world [JString ''rm'', JString ''-rf'', JString ''/''] (cwd ?rm)
      = Throws ''ENOENT''"
    by code_simp
  have e2: "snd (executeCommand scenario_world ?git)
      = [Spawn [JString ''git'', JString ''status''] (cwd ?git)]"
    by code_simp
  have s2: "Bun_spawn scenario_world [JString ''git'', JString ''status''] (cwd ?git)
      = Returns ([], ''fatal: not a git repository'', 128)"
    by code_simp
  have i3: "snd (executeCommand_index scenario_world ?echo)
      = [Spawn [JString ''echo'', JString ''hello''] (cwd ?echo)]"
    using echo by simp
  have s3: "Bun_spawn scenario_world [JString ''echo'', JString ''hello''] (cwd ?echo)
      = Returns (''hello\<newline>'', [], 0)"
    by code_simp
  have r1: "fst (executeCommand scenario_world ?rm)
       = \<lparr>success = False, output' = [], error = Some ''ENOENT'', exitCode = 1\<rparr>"
    using rm e1 s1 by simp
  have r1': "fst (executeCommand_index scenario_world ?rm)
       = \<lparr>success = False, output' = [], error = Some ''ENOENT''\<rparr>"
    using rm i1 s1 by simp
  have r2: "exitCode (fst (executeCommand scenario_world ?git)) = 128
       \<and> \<not> success (fst (executeCommand scenario_world ?git))"
    using git e2 s2 by simp
  have r3: "success (fst (executeCommand_index scenario_world ?echo))"
    using echo i3 s3 by simp
  from a1 e1 i1 s1 r1 r1' e2 s2 r2 i3 s3 r3 show ?thesis
    by simp
qed

text \<open>
  C6 as it is stated fails on the executor of \<open>src/index.ts\<close>: for the same spawn
  failure its result is the object with the three properties \<open>success\<close>, \<open>output\<close> and
  \<open>error\<close>, without the \<open>exitCode: 1\<close> that the worker with responses returns.
\<close>

theorem executeCommand_index_no_exitCode:
  "fst (executeCommand_index scenario_world
         \<lparr>command = ''rm'', args = Some (JArray [JString ''-rf'', JString ''/'']), cwd = None\<rparr>)
     = \<lparr>success = False, output' = [], error = Some ''ENOENT''\<rparr>
   \<and> fst (executeCommand scenario_world
         \<lparr>command = ''rm'', args = Some (JArray [JString ''-rf'', JString ''/'']), cwd = None\<rparr>)
     = \<lparr>success = False, output' = [], error = Some ''ENOENT'', exitCode = 1\<rparr>"
  by code_simp

text \<open>
  The call of \<open>Bun.spawn\<close> for a command with a token: the program is the first token,
  and the arguments are the other tokens when \<open>args\<close> is falsy, the elements \<open>args\<close>
  spreads into otherwise.
\<close>

lemma executeCommand_spawned:
  assumes "tokens (command cmd) = p # rest"
  shows "snd (executeCommand w cmd)
     = (if falsy (args cmd) then [Spawn (JString p # map JString rest) (cwd cmd)]
        else (case spread (json_nullish (args cmd) (JArray [])) of
                None \<Rightarrow> []
              | Some xs \<Rightarrow> [Spawn (JString p # xs) (cwd cmd)]))"
proof -
  have parts: "js_split_ws (js_trim (command cmd)) = p # rest"
    using assms by (simp add: js_split_ws_trim)
  show ?thesis
    by (simp add: executeCommand_def Let_def parts split: option.splits attempt.splits prod.splits)
qed

text \<open>
  C10. The executor trims and splits the command of the descriptor again. The program it
  spawns is the first token of the command. The other tokens of the command are the
  arguments when the descriptor has no \<open>args\<close>; when \<open>args\<close> is an array, that array is
  the argument vector and the other tokens of the command are dropped. The gate and the
  executor read the command differently: the gate allows \<open>rm /tmp/git\<close>, whose last
  segment is \<open>git\<close>, and the executor spawns its first token \<open>rm\<close>, which the gate
  refuses.
\<close>

theorem executeCommand_argv:
  assumes "tokens (command cmd) = p # rest"
  shows "(args cmd = None \<longrightarrow>
            snd (executeCommand w cmd) = [Spawn (JString p # map JString rest) (cwd cmd)])
       \<and> (args cmd = Some (JArray xs) \<longrightarrow>
            snd (executeCommand w cmd) = [Spawn (JString p # xs) (cwd cmd)])
       \<and> isCommandAllowed ''rm /tmp/git'' \<and> \<not> isCommandAllowed ''rm''
       \<and> snd (executeCommand w \<lparr>command = ''rm /tmp/git'', args = Some (JArray []), cwd = None\<rparr>)
           = [Spawn [JString ''rm''] None]"
proof -
  have a: "args cmd = None \<longrightarrow>
            snd (executeCommand w cmd) = [Spawn (JString p # map JString rest) (cwd cmd)]"
    by (simp add: executeCommand_spawned[OF assms] falsy_def)
  have b: "args cmd = Some (JArray xs) \<longrightarrow>
            snd (executeCommand w cmd) = [Spawn (JString p # xs) (cwd cmd)]"
    by (simp add: executeCommand_spawned[OF assms] falsy_def json_nullish_def)
  have t: "tokens ''rm /tmp/git'' = [''rm'', ''/tmp/git'']"
    by code_simp
  have c: "isCommandAllowed ''rm /tmp/git''" "\<not> isCommandAllowed ''rm''"
    by code_simp+
  have d: "snd (executeCommand w \<lparr>command = ''rm /tmp/git'', args = Some (JArray []), cwd = None\<rparr>)
           = [Spawn [JString ''rm''] None]"
    using executeCommand_spawned
            [where cmd = "\<lparr>command = ''rm /tmp/git'', args = Some (JArray []), cwd = None\<rparr>"
               and w = w and p = "''rm''" and rest = "[''/tmp/git'']"]
          t
    by (simp add: falsy_def json_nullish_def)
  from a b c d show ?thesis by simp
qed

text \<open>The command \<open>git status\<close>, without \<open>args\<close> and with the arguments \<open>[log]\<close>.\<close>

theorem executeCommand_argv_witness:
  "tokens ''git status'' = [''git'', ''status'']
   \<and> snd (executeCommand scenario_world \<lparr>command = ''git status'', args = None, cwd = None\<rparr>)
       = [Spawn [JString ''git'', JString ''status''] None]
   \<and> snd (executeCommand scenario_world
            \<lparr>command = ''git status'', args = Some (JArray [JString ''log'']), cwd = None\<rparr>)
       = [Spawn [JString ''git'', JString ''log''] None]"
proof -
  have t: "tokens ''git status'' = [''git'', ''status'']"
    by code_simp
  have a: "snd (executeCommand scenario_world \<lparr>command = ''git status'', args = None, cwd = None\<rparr>)
       = [Spawn [JString ''git'', JString ''status''] None]"
    using executeCommand_argv
            [where cmd = "\<lparr>command = ''git status'', args = None, cwd = None\<rparr>"
               and p = "''git''" and rest = "[''status'']" and w = scenario_world]
          t
    by simp
  have b: "snd (executeCommand scenario_world
            \<lparr>command = ''git status'', args = Some (JArray [JString ''log'']), cwd = None\<rparr>)
       = [Spawn [JString ''git'', JString ''log''] None]"
    using executeCommand_argv
            [where cmd = "\<lparr>command = ''git status'', args = Some (JArray [JString ''log'']),
                            cwd = None\<rparr>"
               and p = "''git''" and rest = "[''status'']" and xs = "[JString ''log'']"
               and w = scenario_world]
          t
    by simp
  from t a b show ?thesis
    by simp
qed

section \<open>The response publisher\<close>

text \<open>
  A publication is the lookup of the queue, and the message when the lookup gave an
  address; it spawns nothing and deletes nothing.
\<close>

lemma sendResponse_cases:
  "sendResponse w cid r = []
   \<or> sendResponse w cid r = [GetQueueUrl (getResponseQueueName w)]
   \<or> (\<exists>url. url \<noteq> [] \<and> GetQueueUrl_result w (getResponseQueueName w) = Returns (Some url)
        \<and> sendResponse w cid r
            = [GetQueueUrl (getResponseQueueName w), SendMessage url (responseBody cid r) cid])"
  by (simp add: sendResponse_def Let_def split: attempt.splits option.splits)

lemma sendResponse_no_spawn_delete:
  "e \<in> set (sendResponse w cid r) \<Longrightarrow> \<not> is_spawn e \<and> \<not> is_delete e"
  using sendResponse_cases[of w cid r] by auto

lemma sendResponse_filter [simp]:
  "filter is_spawn (sendResponse w cid r) = []" "filter is_delete (sendResponse w cid r) = []"
  using sendResponse_no_spawn_delete[of _ w cid r] by (auto simp: filter_empty_conv)

lemma sendResponse_body:
  "SendMessage url b c \<in> set (sendResponse w cid r) \<Longrightarrow> b = responseBody cid r \<and> c = cid"
  using sendResponse_cases[of w cid r] by auto

lemma sendResponse_sent:
  "getResponseQueueName w \<noteq> [] \<Longrightarrow>
   GetQueueUrl_result w (getResponseQueueName w) = Returns (Some url) \<Longrightarrow> url \<noteq> [] \<Longrightarrow>
   sendResponse w cid r = [GetQueueUrl (getResponseQueueName w), SendMessage url (responseBody cid r) cid]"
  by (simp add: sendResponse_def Let_def)

lemma deleteMessage_filter [simp]:
  "filter is_spawn (deleteMessage w h) = []"
  by (simp add: deleteMessage_def)

text \<open>
  C9, as the code has it. A consumer that reads the body of a response back recovers
  \<open>success\<close>, \<open>exitCode\<close> and \<open>stdout\<close> as the result has them, and \<open>stderr\<close> as the
  \<open>error\<close> of the result when it has one; a result without \<open>error\<close> comes back with the
  empty string as its \<open>stderr\<close> (\<open>result.error || ""\<close>).
\<close>

theorem responseBody_round_trip:
  "consumer_spec (responseBody correlationId r)
     = Some \<lparr>success = success r, output' = output' r,
             error = Some (case error r of None \<Rightarrow> [] | Some e \<Rightarrow> e),
             exitCode = exitCode r\<rparr>"
  by (simp add: consumer_spec_def responseBody_def str_or_def split: option.splits)

text \<open>
  C9 as it is stated fails on the result of \<open>echo hello\<close> in scenario A. The process
  writes nothing on its standard error, the result has no \<open>error\<close>
  (\<open>stderr || undefined\<close>), and the consumer reads the empty string: the value read back
  is not the value of the result.
\<close>

theorem responseBody_stderr_absent:
  "fst (executeCommand scenario_world
         \<lparr>command = ''echo'', args = Some (JArray [JString ''hello'']), cwd = None\<rparr>)
     = \<lparr>success = True, output' = ''hello\<newline>'', error = None, exitCode = 0\<rparr>
   \<and> consumer_spec (responseBody ''req-1''
         \<lparr>success = True, output' = ''hello\<newline>'', error = None, exitCode = 0\<rparr>)
     = Some \<lparr>success = True, output' = ''hello\<newline>'', error = Some [], exitCode = 0\<rparr>
   \<and> consumer_spec (responseBody ''req-1''
         \<lparr>success = True, output' = ''hello\<newline>'', error = None, exitCode = 0\<rparr>)
     \<noteq> Some \<lparr>success = True, output' = ''hello\<newline>'', error = None, exitCode = 0\<rparr>"
proof -
  have e: "fst (executeCommand scenario_world
         \<lparr>command = ''echo'', args = Some (JArray [JString ''hello'']), cwd = None\<rparr>)
     = \<lparr>success = True, output' = ''hello\<newline>'', error = None, exitCode = 0\<rparr>"
    by code_simp
  have c: "consumer_spec (responseBody ''req-1''
         \<lparr>success = True, output' = ''hello\<newline>'', error = None, exitCode = 0\<rparr>)
     = Some \<lparr>success = True, output' = ''hello\<newline>'', error = Some [], exitCode = 0\<rparr>"
    by (simp add: consumer_spec_def responseBody_def str_or_def)
  from e c show ?thesis
    by simp
qed

section \<open>The message lifecycle\<close>

text \<open>
  C7. When the body of a message does not parse, processing the message returns without
  a call: no response is published, whatever the correlation id, and the message is not
  deleted.
\<close>

theorem processMessage_parse_failure:
  "parseMessage (JSON_parse w) (str_or (Body message) []) = None \<Longrightarrow>
     processMessage w message = Returns []"
  by (simp add: processMessage_def Let_def)

text \<open>The message of scenario D: no body, a correlation id and a receipt handle.\<close>

theorem processMessage_parse_failure_witness:
  "parseMessage (JSON_parse scenario_world) (str_or (Body
      \<lparr>Body = None, ReceiptHandle = Some ''rh-4'', MessageId = Some ''m-4'',
       CorrelationId = Some ''req-4''\<rparr>) []) = None
   \<and> processMessage scenario_world
        \<lparr>Body = None, ReceiptHandle = Some ''rh-4'', MessageId = Some ''m-4'',
         CorrelationId = Some ''req-4''\<rparr> = Returns []"
proof -
  let ?m = "\<lparr>Body = None, ReceiptHandle = Some ''rh-4'', MessageId = Some ''m-4'',
             CorrelationId = Some ''req-4''\<rparr>"
  have p: "parseMessage (JSON_parse scenario_world) (str_or (Body ?m) []) = None"
    by code_simp
  from processMessage_parse_failure [OF p] p show ?thesis
    by simp
qed

text \<open>
  C1. When the command of the parsed descriptor is not allowed, processing the message
  returns, and never calls \<open>Bun.spawn\<close>; every response it sends has \<open>success: false\<close>,
  \<open>exitCode: 1\<close> and, as its \<open>stderr\<close>, the text \<open>Command "c" is not in the allowlist\<close>
  with the command \<open>c\<close> of the descriptor; and it sends one when the message has a
  correlation id and the lookup of the response queue gives an address.
\<close>

theorem processMessage_rejected:
  assumes "parseMessage (JSON_parse w) (str_or (Body message) []) = Some cmd"
    and "\<not> isCommandAllowed (command cmd)"
  shows "\<exists>calls. processMessage w message = Returns calls
       \<and> filter is_spawn calls = []
       \<and> (\<forall>url b c. SendMessage url b c \<in> set calls \<longrightarrow>
             get_prop b ''success'' = Some (JBool False)
             \<and> get_prop b ''exitCode'' = Some (JNumber 1)
             \<and> get_prop b ''stderr'' = Some (JString (''Command \"'' @ command cmd @ ''\" is not in the allowlist'')))
       \<and> (\<forall>url. str_or (CorrelationId message) (str_or (MessageId message) []) \<noteq> [] \<longrightarrow>
             getResponseQueueName w \<noteq> [] \<longrightarrow>
             GetQueueUrl_result w (getResponseQueueName w) = Returns (Some url) \<longrightarrow> url \<noteq> [] \<longrightarrow>
             (\<exists>b c. SendMessage url b c \<in> set calls))"
proof -
  let ?cid = "str_or (CorrelationId message) (str_or (MessageId message) [])"
  let ?r = "\<lparr>success = False, output' = [], error = Some (not_in_allowlist (command cmd)),
             exitCode = 1\<rparr>"
  let ?calls = "(if ?cid \<noteq> [] then sendResponse w ?cid ?r else [])
        @ deleteMessage w (str_or (ReceiptHandle message) [])"
  have pm: "processMessage w message = Returns ?calls"
    using assms by (simp add: processMessage_def Let_def)
  have 1: "filter is_spawn ?calls = []"
    by simp
  have body: "get_prop (responseBody ?cid ?r) ''success'' = Some (JBool False)
      \<and> get_prop (responseBody ?cid ?r) ''exitCode'' = Some (JNumber 1)
      \<and> get_prop (responseBody ?cid ?r) ''stderr'' = Some (JString (''Command \"'' @ command cmd @ ''\" is not in the allowlist''))"
    by (simp add: responseBody_def str_or_def not_in_allowlist_def)
  have 2: "\<forall>url b c. SendMessage url b c \<in> set ?calls \<longrightarrow>
             get_prop b ''success'' = Some (JBool False)
             \<and> get_prop b ''exitCode'' = Some (JNumber 1)
             \<and> get_prop b ''stderr'' = Some (JString (''Command \"'' @ command cmd @ ''\" is not in the allowlist''))"
  proof (intro allI impI)
    fix url b c
    assume "SendMessage url b c \<in> set ?calls"
    then have "SendMessage url b c \<in> set (sendResponse w ?cid ?r)"
      by (auto simp: deleteMessage_def split: if_splits)
    then have "b = responseBody ?cid ?r"
      by (auto dest: sendResponse_body)
    with body show "get_prop b ''success'' = Some (JBool False)
             \<and> get_prop b ''exitCode'' = Some (JNumber 1)
             \<and> get_prop b ''stderr'' = Some (JString (''Command \"'' @ command cmd @ ''\" is not in the allowlist''))"
      by simp
  qed
  have 3: "\<forall>url. ?cid \<noteq> [] \<longrightarrow> getResponseQueueName w \<noteq> [] \<longrightarrow>
             GetQueueUrl_result w (getResponseQueueName w) = Returns (Some url) \<longrightarrow> url \<noteq> [] \<longrightarrow>
             (\<exists>b c. SendMessage url b c \<in> set ?calls)"
    by (auto simp: sendResponse_sent)
  from pm 1 2 3 show ?thesis
    by blast
qed

text \<open>The message of scenario B: \<open>rm -rf /\<close> in the object form.\<close>

theorem processMessage_rejected_witness:
  "parseMessage (JSON_parse scenario_world) ''{\"command\":\"rm\",\"args\":[\"-rf\",\"/\"]}''
     = Some \<lparr>command = ''rm'', args = Some (JArray [JString ''-rf'', JString ''/'']), cwd = None\<rparr>
   \<and> \<not> isCommandAllowed ''rm''
   \<and> (\<exists>calls b c.
         processMessage scenario_world
           \<lparr>Body = Some ''{\"command\":\"rm\",\"args\":[\"-rf\",\"/\"]}'',
            ReceiptHandle = Some ''rh-2'', MessageId = Some ''m-2'',
            CorrelationId = Some ''req-2''\<rparr> = Returns calls
         \<and> filter is_spawn calls = []
         \<and> SendMessage ''https://sqs.us-east-1.amazonaws.com/123456789012/i-0abc-responses'' b c
              \<in> set calls
         \<and> get_prop b ''success'' = Some (JBool False)
         \<and> get_prop b ''exitCode'' = Some (JNumber 1)
         \<and> get_prop b ''stderr'' = Some (JString ''Command \"rm\" is not in the allowlist''))"
proof -
  let ?body = "''{\"command\":\"rm\",\"args\":[\"-rf\",\"/\"]}''"
  let ?m = "\<lparr>Body = Some ?body, ReceiptHandle = Some ''rh-2'', MessageId = Some ''m-2'',
             CorrelationId = Some ''req-2''\<rparr>"
  let ?cmd = "\<lparr>command = ''rm'', args = Some (JArray [JString ''-rf'', JString ''/'']),
               cwd = None\<rparr>"
  let ?url = "''https://sqs.us-east-1.amazonaws.com/123456789012/i-0abc-responses''"
  have p: "parseMessage (JSON_parse scenario_world) (str_or (Body ?m) []) = Some ?cmd"
    by code_simp
  have p': "parseMessage (JSON_parse scenario_world) ?body = Some ?cmd"
    by code_simp
  have n: "\<not> isCommandAllowed (command ?cmd)"
    by code_simp
  have cid: "str_or (CorrelationId ?m) (str_or (MessageId ?m) []) \<noteq> []"
    by code_simp
  have q: "getResponseQueueName scenario_world \<noteq> []"
    by code_simp
  have u: "GetQueueUrl_result scenario_world (getResponseQueueName scenario_world)
      = Returns (Some ?url)"
    by code_simp
  have msg: "''Command \"'' @ command ?cmd @ ''\" is not in the allowlist''
      = ''Command \"rm\" is not in the allowlist''"
    by simp
  from processMessage_rejected [OF p n] obtain calls where
    r: "processMessage scenario_world ?m = Returns calls"
       "filter is_spawn calls = []"
       "\<forall>url b c. SendMessage url b c \<in> set calls \<longrightarrow>
             get_prop b ''success'' = Some (JBool False)
             \<and> get_prop b ''exitCode'' = Some (JNumber 1)
             \<and> get_prop b ''stderr'' = Some (JString (''Command \"'' @ command ?cmd @ ''\" is not in the allowlist''))"
       "\<forall>url. str_or (CorrelationId ?m) (str_or (MessageId ?m) []) \<noteq> [] \<longrightarrow>
             getResponseQueueName scenario_world \<noteq> [] \<longrightarrow>
             GetQueueUrl_result scenario_world (getResponseQueueName scenario_world)
               = Returns (Some url) \<longrightarrow> url \<noteq> [] \<longrightarrow>
             (\<exists>b c. SendMessage url b c \<in> set calls)"
    by blast
  from r(4) cid q u obtain b c where s: "SendMessage ?url b c \<in> set calls"
    by fastforce
  with r(3) have "get_prop b ''success'' = Some (JBool False)
      \<and> get_prop b ''exitCode'' = Some (JNumber 1)
      \<and> get_prop b ''stderr'' = Some (JString (''Command \"'' @ command ?cmd @ ''\" is not in the allowlist''))"
    by blast
  with r(1,2) s msg have "\<exists>calls b c. processMessage scenario_world ?m = Returns calls
          \<and> filter is_spawn calls = []
          \<and> SendMessage ?url b c \<in> set calls
          \<and> get_prop b ''success'' = Some (JBool False)
          \<and> get_prop b ''exitCode'' = Some (JNumber 1)
          \<and> get_prop b ''stderr'' = Some (JString ''Command \"rm\" is not in the allowlist'')"
    by auto
  with p' n show ?thesis
    by simp
qed

text \<open>
  The calls for a message that parses, when the log line does not throw: the call of
  \<open>Bun.spawn\<close> when the command is allowed, the publication when there is a correlation
  id, the deletion when there is a receipt handle.
\<close>

lemma processMessage_parsed:
  assumes "parseMessage (JSON_parse w) (str_or (Body message) []) = Some cmd"
    and "isCommandAllowed (command cmd) \<longrightarrow> has_join (json_or (args cmd) (JArray []))"
  shows "processMessage w message
     = Returns
        ((if isCommandAllowed (command cmd) then snd (executeCommand w cmd) else [])
         @ (if str_or (CorrelationId message) (str_or (MessageId message) []) \<noteq> [] then
              sendResponse w (str_or (CorrelationId message) (str_or (MessageId message) []))
                (if isCommandAllowed (command cmd) then fst (executeCommand w cmd)
                 else \<lparr>success = False, output' = [],
                        error = Some (not_in_allowlist (command cmd)), exitCode = 1\<rparr>)
            else [])
         @ deleteMessage w (str_or (ReceiptHandle message) []))"
  using assms by (simp add: processMessage_def Let_def case_prod_beta)

text \<open>
  For a message that parses and has a receipt handle (not empty), when the command is
  refused or the log line does not throw (the \<open>args\<close> of the descriptor are an array
  whose elements convert to strings), the calls hold exactly one \<open>DeleteMessage\<close>, and
  it is the last call: the execution and the publication of the result or of the
  rejection come before it, whatever the execution gave.
\<close>

lemma processMessage_acknowledges:
  assumes "parseMessage (JSON_parse w) (str_or (Body message) []) = Some cmd"
    and "ReceiptHandle message = Some h" and "h \<noteq> []"
    and "isCommandAllowed (command cmd) \<longrightarrow> has_join (json_or (args cmd) (JArray []))"
  shows "\<exists>before. processMessage w message = Returns (before @ [DeleteMessage (QUEUE_URL w) h])
           \<and> filter is_delete before = []
           \<and> before
              = (if isCommandAllowed (command cmd) then snd (executeCommand w cmd) else [])
                @ (if str_or (CorrelationId message) (str_or (MessageId message) []) \<noteq> [] then
                     sendResponse w (str_or (CorrelationId message) (str_or (MessageId message) []))
                       (if isCommandAllowed (command cmd) then fst (executeCommand w cmd)
                        else \<lparr>success = False, output' = [],
                               error = Some (not_in_allowlist (command cmd)), exitCode = 1\<rparr>)
                   else [])"
proof -
  have d: "deleteMessage w (str_or (ReceiptHandle message) []) = [DeleteMessage (QUEUE_URL w) h]"
    using assms(2,3) by (simp add: deleteMessage_def str_or_def)
  show ?thesis
    unfolding processMessage_parsed[OF assms(1,4)] d by simp
qed

text \<open>
  The message of scenario C: \<open>git status\<close> fails, the failure is published under the
  message id, and the message is deleted last.
\<close>

lemma processMessage_scenario_C:
  "processMessage scenario_world
        \<lparr>Body = Some ''\"git status\"'', ReceiptHandle = Some ''rh-3'', MessageId = Some ''m-3'',
         CorrelationId = None\<rparr>
      = Returns
         [Spawn [JString ''git'', JString ''status''] None,
          GetQueueUrl ''i-0abc-responses'',
          SendMessage ''https://sqs.us-east-1.amazonaws.com/123456789012/i-0abc-responses''
            (JObject [(''correlationId'', JString ''m-3''), (''success'', JBool False),
                      (''stdout'', JString []),
                      (''stderr'', JString ''fatal: not a git repository''),
                      (''exitCode'', JNumber 128)])
            ''m-3'',
          DeleteMessage ''https://sqs.us-east-1.amazonaws.com/123456789012/i-0abc'' ''rh-3'']"
  by code_simp

text \<open>
  The deletion is guarded by \<open>if (receiptHandle)\<close>: a message without receipt handle is
  run and answered, and not deleted.
\<close>

lemma processMessage_no_receipt_handle:
  "processMessage scenario_world
        \<lparr>Body = Some ''\"echo hello\"'', ReceiptHandle = None, MessageId = Some ''m-1'',
         CorrelationId = Some ''req-1''\<rparr>
      = Returns
         [Spawn [JString ''echo'', JString ''hello''] None,
          GetQueueUrl ''i-0abc-responses'',
          SendMessage ''https://sqs.us-east-1.amazonaws.com/123456789012/i-0abc-responses''
            (JObject [(''correlationId'', JString ''req-1''), (''success'', JBool True),
                      (''stdout'', JString ''hello\<newline>''), (''stderr'', JString []),
                      (''exitCode'', JNumber 0)])
            ''req-1'']"
  by code_simp

text \<open>
  C3, at the body \<open>{"command":"ls","args":"-la"}\<close>, in a message with a receipt handle
  and a correlation id. The body parses, with the string \<open>-la\<close> as the \<open>args\<close> of the
  descriptor, and \<open>ls\<close> is allowed. The log line calls \<open>join\<close> on the string and throws:
  \<open>processMessage\<close> is left before the command runs, and no \<open>DeleteMessage\<close> is sent,
  nor a response.
\<close>

theorem processMessage_args_not_array:
  "parseMessage (JSON_parse scenario_world) ''{\"command\":\"ls\",\"args\":\"-la\"}''
     = Some \<lparr>command = ''ls'', args = Some (JString ''-la''), cwd = None\<rparr>
   \<and> isCommandAllowed ''ls''
   \<and> processMessage scenario_world
        \<lparr>Body = Some ''{\"command\":\"ls\",\"args\":\"-la\"}'', ReceiptHandle = Some ''rh-5'',
         MessageId = Some ''m-5'', CorrelationId = Some ''req-5''\<rparr>
      = Throws ''TypeError''"
  by code_simp

text \<open>
  The gate and the executor read the command differently, and a message can use it: for
  the body \<open>{"command":"rm /tmp/git","args":["-rf","/"]}\<close> the gate sees the
  last segment \<open>git\<close>, and the worker spawns \<open>rm -rf /\<close>.
\<close>

lemma processMessage_gate_bypass:
  assumes "Body message = Some body" "body \<noteq> []"
    and "JSON_parse w body
           = Some (JObject [(''command'', JString ''rm /tmp/git''),
                            (''args'', JArray [JString ''-rf'', JString ''/''])])"
  shows "\<exists>calls. processMessage w message
           = Returns (Spawn [JString ''rm'', JString ''-rf'', JString ''/''] None # calls)"
proof -
  let ?cmd = "\<lparr>command = ''rm /tmp/git'',
               args = Some (JArray [JString ''-rf'', JString ''/'']), cwd = None\<rparr>"
  have p: "parseMessage (JSON_parse w) (str_or (Body message) []) = Some ?cmd"
    using assms
    by (simp add: parseMessage_def parseMessage_try_def str_or_def json_or_def)
  have a: "isCommandAllowed (command ?cmd)"
    by code_simp
  have j: "isCommandAllowed (command ?cmd) \<longrightarrow> has_join (json_or (args ?cmd) (JArray []))"
    by (simp add: json_or_def)
  have t: "tokens (command ?cmd) = [''rm'', ''/tmp/git'']"
    by code_simp
  have e: "snd (executeCommand w ?cmd) = [Spawn [JString ''rm'', JString ''-rf'', JString ''/''] None]"
    using executeCommand_spawned[where cmd = ?cmd and w = w, OF t]
    by (simp add: falsy_def json_nullish_def)
  show ?thesis
    unfolding processMessage_parsed[OF p j] using a e by simp
qed

text \<open>
  The log line throws as well on an array with an element that does not convert to a
  string, as in the body \<open>{"command":"ls","args":[{"toString":1}]}\<close>.
\<close>

lemma processMessage_args_element_throws:
  assumes "Body message = Some body" "body \<noteq> []"
    and "JSON_parse w body
           = Some (JObject [(''command'', JString ''ls''),
                            (''args'', JArray [JObject [(''toString'', JNumber 1)]])])"
  shows "processMessage w message = Throws ''TypeError''"
proof -
  let ?cmd = "\<lparr>command = ''ls'',
               args = Some (JArray [JObject [(''toString'', JNumber 1)]]), cwd = None\<rparr>"
  have p: "parseMessage (JSON_parse w) (str_or (Body message) []) = Some ?cmd"
    using assms
    by (simp add: parseMessage_def parseMessage_try_def str_or_def json_or_def)
  have a: "isCommandAllowed (command ?cmd)"
    by code_simp
  show ?thesis
    using a by (simp add: processMessage_def Let_def p json_or_def)
qed

end
